theory Spec2Isabelle
  imports Main "HOL-Library.Word"
begin

unbundle bit_operations_syntax

section \<open>Errors\<close>

text \<open>
  A Go \<^verbatim>\<open>error\<close> value built by \<^verbatim>\<open>fmt.Errorf\<close> is \<open>Errorf msg\<close>; a \<^verbatim>\<open>panic\<close>
  (explicit, or a nil-pointer dereference) is \<open>Panic msg\<close>. Fallible functions return
  \<open>error + 'a\<close>, with \<open>Inl\<close> the failure.
\<close>

datatype error = Errorf string | Panic string

section \<open>OSTree options and source specs (package ostree)\<close>

text \<open>
  \<^verbatim>\<open>ostree.ImageOptions\<close> and \<^verbatim>\<open>ostree.SourceSpec\<close>, with the fields the image
  functions read and write. A nil \<^verbatim>\<open>*ostree.ImageOptions\<close> is \<open>None\<close>.
\<close>

record ImageOptions =
  URL :: string
  ImageRef :: string
  ParentRef :: string
  RHSM :: bool
  ContentURL :: string

record SourceSpec =
  srcURL :: string
  srcRef :: string
  srcRHSM :: bool

subsection \<open>makeOSTreeParentCommit\<close>

text \<open>
  Package fedora, images.go lines 483-513. The result is the pair of the optional parent
  source spec (nil is \<open>None\<close>) and the ref of the commit to be created.
\<close>

definition fedora_makeOSTreeParentCommit ::
  "ImageOptions option \<Rightarrow> string \<Rightarrow> SourceSpec option \<times> string" where
  "fedora_makeOSTreeParentCommit options defaultRef =
     (let commitRef = defaultRef in
      case options of
        None \<Rightarrow> (None, commitRef)
      | Some opts \<Rightarrow>
          (let commitRef = (if ImageRef opts \<noteq> [] then ImageRef opts else commitRef) in
           if URL opts = [] then (None, commitRef)
           else
             (let parentRef = ParentRef opts;
                  parentRef = (if parentRef = [] then commitRef else parentRef)
              in (Some \<lparr>srcURL = URL opts, srcRef = parentRef, srcRHSM = RHSM opts\<rparr>,
                  commitRef))))"

text \<open>Package rhel9, images.go lines 1111-1141: the same function, repeated there.\<close>

definition rhel9_makeOSTreeParentCommit ::
  "ImageOptions option \<Rightarrow> string \<Rightarrow> SourceSpec option \<times> string" where
  "rhel9_makeOSTreeParentCommit options defaultRef =
     (let commitRef = defaultRef in
      case options of
        None \<Rightarrow> (None, commitRef)
      | Some opts \<Rightarrow>
          (let commitRef = (if ImageRef opts \<noteq> [] then ImageRef opts else commitRef) in
           if URL opts = [] then (None, commitRef)
           else
             (let parentRef = ParentRef opts;
                  parentRef = (if parentRef = [] then commitRef else parentRef)
              in (Some \<lparr>srcURL = URL opts, srcRef = parentRef, srcRHSM = RHSM opts\<rparr>,
                  commitRef))))"

subsection \<open>makeOSTreePayloadCommit\<close>

text \<open>Package fedora, images.go lines 516-534.\<close>

definition fedora_makeOSTreePayloadCommit ::
  "ImageOptions option \<Rightarrow> string \<Rightarrow> error + SourceSpec" where
  "fedora_makeOSTreePayloadCommit options defaultRef =
     (case options of
        None \<Rightarrow> Inl (Errorf ''ostree commit URL required'')
      | Some opts \<Rightarrow>
          if URL opts = [] then Inl (Errorf ''ostree commit URL required'')
          else
            (let commitRef = defaultRef;
                 commitRef = (if ImageRef opts \<noteq> [] then ImageRef opts else commitRef)
             in Inr \<lparr>srcURL = URL opts, srcRef = commitRef, srcRHSM = RHSM opts\<rparr>))"

text \<open>Package rhel9, images.go lines 1144-1162.\<close>

definition rhel9_makeOSTreePayloadCommit ::
  "ImageOptions option \<Rightarrow> string \<Rightarrow> error + SourceSpec" where
  "rhel9_makeOSTreePayloadCommit options defaultRef =
     (case options of
        None \<Rightarrow> Inl (Errorf ''ostree commit URL required'')
      | Some opts \<Rightarrow>
          if URL opts = [] then Inl (Errorf ''ostree commit URL required'')
          else
            (let commitRef = defaultRef;
                 commitRef = (if ImageRef opts \<noteq> [] then ImageRef opts else commitRef)
             in Inr \<lparr>srcURL = URL opts, srcRef = commitRef, srcRHSM = RHSM opts\<rparr>))"

section \<open>Data read and written by the customization merge\<close>

text \<open>
  Values of Go types that are declared in other packages and that this code only
  copies from one struct to another are of the type \<open>opaque\<close>; a field that can
  be nil (a pointer or a slice) is an \<open>opaque option\<close>, with \<open>None\<close> its zero value.
\<close>

typedecl opaque

text \<open>
  Blueprint users, groups, directories, files and repositories, and what package
  \<^verbatim>\<open>users\<close>, \<^verbatim>\<open>fsnode\<close> and \<^verbatim>\<open>rpmmd\<close> make of them. This code does not look
  inside them; an item is told from another by its name.
\<close>

datatype UserCustomization = UserCustomization string
datatype GroupCustomization = GroupCustomization string
datatype User = User string
datatype Group = Group string
datatype DirectoryCustomization = DirectoryCustomization string
datatype FileCustomization = FileCustomization string
datatype RepositoryCustomization = RepositoryCustomization string
datatype Directory = Directory string
datatype File = File string
datatype RepoConfig = RepoConfig string
datatype ContainerSourceSpec = ContainerSourceSpec string

text \<open>\<^verbatim>\<open>rpmmd.PackageSet\<close>.\<close>

record PackageSet =
  Include :: "string list"
  Exclude :: "string list"
  Repositories :: "RepoConfig list"

text \<open>
  \<^verbatim>\<open>blueprint.KernelCustomization\<close>, \<^verbatim>\<open>blueprint.FirewallCustomization\<close> with its
  services and zones, and \<^verbatim>\<open>blueprint.OpenSCAPCustomization\<close>. The name of a zone is a
  \<^verbatim>\<open>*string\<close>.
\<close>

record KernelCustomization =
  kc_Name :: string
  kc_Append :: string

record FirewallServicesCustomization =
  fsc_Enabled :: "string list"
  fsc_Disabled :: "string list"

record FirewallZoneCustomization =
  fzc_Name :: "string option"
  fzc_Sources :: "string list"

record FirewallCustomization =
  fc_Ports :: "string list"
  fc_Services :: "FirewallServicesCustomization option"
  fc_Zones :: "FirewallZoneCustomization list"

record OpenSCAPCustomization =
  oc_DataStream :: string
  oc_ProfileID :: string

text \<open>
  \<^verbatim>\<open>*blueprint.Customizations\<close> is read through its getters only, and their code is
  in package blueprint. The record holds what each getter returns for the given
  customizations: \<open>GetKernel\<close> is never nil, \<open>GetPrimaryLocale\<close> is the pair
  of language and keyboard, \<open>GetTimezoneSettings\<close> the pair of timezone and NTP
  servers, \<open>GetRepositories\<close> a list or an error.
\<close>

record Customizations =
  GetKernel :: KernelCustomization
  GetGroups :: "GroupCustomization list"
  GetUsers :: "UserCustomization list"
  GetFirewall :: "FirewallCustomization option"
  GetPrimaryLocale :: "string option \<times> string option"
  GetHostname :: "string option"
  GetTimezoneSettings :: "string option \<times> string list"
  GetOpenSCAP :: "OpenSCAPCustomization option"
  GetDirectories :: "DirectoryCustomization list"
  GetFiles :: "FileCustomization list"
  GetRepositories :: "error + RepositoryCustomization list"

text \<open>Stage options of package osbuild that this code builds or takes apart.\<close>

record FirewallZone =
  fz_Name :: string
  fz_Sources :: "string list"

record FirewallStageOptions =
  fso_Ports :: "string list"
  fso_EnabledServices :: "string list"
  fso_DisabledServices :: "string list"
  fso_Zones :: "FirewallZone list"

record ChronyConfigServer =
  ccs_Hostname :: string

record ChronyStageOptions =
  cso_Servers :: "ChronyConfigServer list"
  cso_LeapsecTz :: "string option"

record X11KeymapOptions =
  x11_Layouts :: "string list"

record KeyboardStageOptions =
  kso_Keymap :: string
  kso_X11Keymap :: "X11KeymapOptions option"

record OscapConfig =
  ocfg_Datastream :: string
  ocfg_ProfileID :: string

text \<open>
  \<^verbatim>\<open>osbuild.NewOscapRemediationStageOptions\<close> and \<^verbatim>\<open>osbuild.NewYumReposStageOptions\<close>
  are constructors of package osbuild; their results are kept as the constructor applied
  to its arguments.
\<close>

datatype OscapRemediationStageOptions = NewOscapRemediationStageOptions OscapConfig

datatype YumReposStageOptions = NewYumReposStageOptions string "RepoConfig list"

text \<open>
  \<^verbatim>\<open>distro.ImageConfig\<close>, the default configuration of an image type: the fields that
  the two \<^verbatim>\<open>osCustomizations\<close> read. A nil pointer is \<open>None\<close>.
\<close>

record ImageConfig =
  ic_GPGKeyFiles :: "string list"
  ic_ExcludeDocs :: "bool option"
  ic_EnabledServices :: "string list"
  ic_DisabledServices :: "string list"
  ic_DefaultTarget :: "string option"
  ic_Firewall :: "FirewallStageOptions option"
  ic_Locale :: "string option"
  ic_Keyboard :: "KeyboardStageOptions option"
  ic_Timezone :: "string option"
  ic_TimeSynchronization :: "ChronyStageOptions option"
  ic_NoSElinux :: "bool option"
  ic_YUMRepos :: "YumReposStageOptions list"
  ic_ShellInit :: "opaque option"
  ic_Grub2Config :: "opaque option"
  ic_Sysconfig :: "opaque option"
  ic_SystemdLogind :: "opaque option"
  ic_CloudInit :: "opaque option"
  ic_Modprobe :: "opaque option"
  ic_DracutConf :: "opaque option"
  ic_SystemdUnit :: "opaque option"
  ic_Authselect :: "opaque option"
  ic_SELinuxConfig :: "opaque option"
  ic_Tuned :: "opaque option"
  ic_Tmpfilesd :: "opaque option"
  ic_PamLimitsConf :: "opaque option"
  ic_Sysctld :: "opaque option"
  ic_DNFConfig :: "opaque option"
  ic_DNFAutomaticConfig :: "opaque option"
  ic_SshdConfig :: "opaque option"
  ic_Authconfig :: "opaque option"
  ic_PwQuality :: "opaque option"
  ic_RHSMConfig :: "opaque option"
  ic_WAAgentConfig :: "opaque option"
  ic_UdevRules :: "opaque option"
  ic_GCPGuestAgentConfig :: "opaque option"
  ic_WSLConfig :: "opaque option"

text \<open>
  \<^verbatim>\<open>manifest.OSCustomizations\<close>, the result of the merge: the fields that the two
  \<^verbatim>\<open>osCustomizations\<close> and the image functions assign.
\<close>

record OSCustomizations =
  KernelName :: string
  KernelOptionsAppend :: "string list"
  ExtraBasePackages :: "string list"
  ExcludeBasePackages :: "string list"
  ExtraBaseRepos :: "RepoConfig list"
  Containers :: "ContainerSourceSpec list"
  GPGKeyFiles :: "string list"
  ExcludeDocs :: bool
  Groups :: "Group list"
  Users :: "User list"
  EnabledServices :: "string list"
  DisabledServices :: "string list"
  DefaultTarget :: string
  Firewall :: "FirewallStageOptions option"
  Language :: string
  Keyboard :: "string option"
  X11KeymapLayouts :: "string list"
  Hostname :: string
  Timezone :: string
  NTPServers :: "ChronyConfigServer list"
  LeapSecTZ :: "string option"
  SElinux :: string
  OpenSCAPConfig :: "OscapRemediationStageOptions option"
  FactAPIType :: "opaque option"
  Directories :: "Directory list"
  Files :: "File list"
  YUMRepos :: "YumReposStageOptions list"
  ShellInit :: "opaque option"
  Grub2Config :: "opaque option"
  Sysconfig :: "opaque option"
  SystemdLogind :: "opaque option"
  CloudInit :: "opaque option"
  Modprobe :: "opaque option"
  DracutConf :: "opaque option"
  SystemdUnit :: "opaque option"
  Authselect :: "opaque option"
  SELinuxConfig :: "opaque option"
  Tuned :: "opaque option"
  Tmpfilesd :: "opaque option"
  PamLimitsConf :: "opaque option"
  Sysctld :: "opaque option"
  DNFConfig :: "opaque option"
  DNFAutomaticConfig :: "opaque option"
  SshdConfig :: "opaque option"
  AuthConfig :: "opaque option"
  PwQuality :: "opaque option"
  RHSMConfig :: "opaque option"
  Subscription :: "opaque option"
  WAAgentConfig :: "opaque option"
  UdevRules :: "opaque option"
  GCPGuestAgentConfig :: "opaque option"
  WSLConfig :: "opaque option"

text \<open>
  The distribution and the image type (\<^verbatim>\<open>*distribution\<close>, \<^verbatim>\<open>*imageType\<close>), with the
  fields and the results of the methods that the image functions use:
  \<open>d_Name\<close> and \<open>d_Releasever\<close> are \<^verbatim>\<open>Name()\<close> and \<^verbatim>\<open>Releasever()\<close>,
  \<open>getDefaultImageConfig\<close>, \<open>t_Name\<close>, \<open>t_Filename\<close> and \<open>t_OSTreeRef\<close> are the
  results of the methods of these names.
\<close>

record distribution =
  d_Name :: string
  d_Releasever :: string
  osVersion :: string
  product :: string
  isolabelTmpl :: string
  isRHEL :: bool

record imageType =
  t_Name :: string
  t_Filename :: string
  t_OSTreeRef :: string
  bootable :: bool
  rpmOstree :: bool
  bootISO :: bool
  kernelOptions :: string
  getDefaultImageConfig :: ImageConfig
  platform :: "opaque option"
  environment :: "opaque option"
  compression :: string
  distro :: distribution

text \<open>\<^verbatim>\<open>distro.ImageOptions\<close> with \<^verbatim>\<open>facts.ImageOptions\<close>.\<close>

record FactsImageOptions =
  APIType :: opaque

record DistroImageOptions =
  io_OSTree :: "ImageOptions option"
  io_Facts :: "FactsImageOptions option"
  io_Subscription :: "opaque option"

text \<open>
  Functions and constants of other packages that the image functions call: the
  conversions of package \<^verbatim>\<open>users\<close> and \<^verbatim>\<open>blueprint\<close>, the default datastreams of
  package \<^verbatim>\<open>oscap\<close>, and the keys of the package sets. They are parameters of the
  model. A map that a conversion returns is the list of its entries in the order in
  which the caller's \<^verbatim>\<open>range\<close> loop meets them.
\<close>

record externals =
  GroupsFromBP :: "GroupCustomization list \<Rightarrow> Group list"
  UsersFromBP :: "UserCustomization list \<Rightarrow> User list"
  DefaultFedoraDatastream :: string
  DefaultRHEL9Datastream :: "bool \<Rightarrow> string"
  DirectoryCustomizationsToFsNodeDirectories ::
    "DirectoryCustomization list \<Rightarrow> error + Directory list"
  FileCustomizationsToFsNodeFiles :: "FileCustomization list \<Rightarrow> error + File list"
  RepoCustomizationsToRepoConfigAndGPGKeyFiles ::
    "RepositoryCustomization list \<Rightarrow> error + ((string \<times> RepoConfig list) list \<times> File list)"
  osPkgsKey :: string
  installerPkgsKey :: string
  containerPkgsKey :: string

section \<open>Sequencing of fallible steps\<close>

definition bind_error :: "error + 'a \<Rightarrow> ('a \<Rightarrow> error + 'b) \<Rightarrow> error + 'b" where
  "bind_error m f = (case m of Inl e \<Rightarrow> Inl e | Inr x \<Rightarrow> f x)"

text \<open>
  \<^verbatim>\<open>panic(fmt.Sprintf(msg + ": %v", err))\<close> on a non-nil \<^verbatim>\<open>err\<close>; a panic inside
  the callee stays the panic it is.
\<close>

definition panic_with :: "string \<Rightarrow> error \<Rightarrow> error" where
  "panic_with msg err = (case err of Errorf m \<Rightarrow> Panic (msg @ '': '' @ m) | Panic m \<Rightarrow> Panic m)"

section \<open>The customization merge: osCustomizations\<close>

text \<open>
  The two \<^verbatim>\<open>osCustomizations\<close> (package fedora, images.go lines 24-199; package
  rhel9, lines 557-759) start from the zero \<^verbatim>\<open>manifest.OSCustomizations{}\<close> and assign
  its fields block by block. Each block is a function on the record under construction;
  a block that both packages have word for word is one function.
\<close>

definition OSCustomizations_zero :: OSCustomizations where
  "OSCustomizations_zero =
     \<lparr>KernelName = [], KernelOptionsAppend = [], ExtraBasePackages = [],
      ExcludeBasePackages = [], ExtraBaseRepos = [], Containers = [], GPGKeyFiles = [],
      ExcludeDocs = False, Groups = [], Users = [], EnabledServices = [],
      DisabledServices = [], DefaultTarget = [], Firewall = None, Language = [],
      Keyboard = None, X11KeymapLayouts = [], Hostname = [], Timezone = [],
      NTPServers = [], LeapSecTZ = None, SElinux = [], OpenSCAPConfig = None,
      FactAPIType = None, Directories = [], Files = [], YUMRepos = [], ShellInit = None,
      Grub2Config = None, Sysconfig = None, SystemdLogind = None, CloudInit = None,
      Modprobe = None, DracutConf = None, SystemdUnit = None, Authselect = None,
      SELinuxConfig = None, Tuned = None, Tmpfilesd = None, PamLimitsConf = None,
      Sysctld = None, DNFConfig = None, DNFAutomaticConfig = None, SshdConfig = None,
      AuthConfig = None, PwQuality = None, RHSMConfig = None, Subscription = None,
      WAAgentConfig = None, UdevRules = None, GCPGuestAgentConfig = None,
      WSLConfig = None\<rparr>"

text \<open>Kernel name and options: fedora lines 34-45, rhel9 lines 569-580.\<close>

definition osc_kernel :: "imageType \<Rightarrow> Customizations \<Rightarrow> OSCustomizations \<Rightarrow> OSCustomizations" where
  "osc_kernel t c osc =
     (if bootable t \<or> rpmOstree t then
        (let opts = [];
             opts = (if kernelOptions t \<noteq> [] then opts @ [kernelOptions t] else opts);
             bpKernel = GetKernel c;
             opts = (if kc_Append bpKernel \<noteq> [] then opts @ [kc_Append bpKernel] else opts)
         in osc\<lparr>KernelName := kc_Name (GetKernel c), KernelOptionsAppend := opts\<rparr>)
      else osc)"

text \<open>Package set, containers, GPG keys, docs: fedora lines 47-56, rhel9 lines 582-591.\<close>

definition osc_packages ::
  "PackageSet \<Rightarrow> ContainerSourceSpec list \<Rightarrow> ImageConfig \<Rightarrow> OSCustomizations \<Rightarrow> OSCustomizations" where
  "osc_packages osPackageSet containers imageConfig osc =
     (let osc = osc\<lparr>ExtraBasePackages := Include osPackageSet,
                     ExcludeBasePackages := Exclude osPackageSet,
                     ExtraBaseRepos := Repositories osPackageSet,
                     Containers := containers,
                     GPGKeyFiles := ic_GPGKeyFiles imageConfig\<rparr>
      in case ic_ExcludeDocs imageConfig of
           None \<Rightarrow> osc
         | Some b \<Rightarrow> osc\<lparr>ExcludeDocs := b\<rparr>)"

text \<open>Users and groups, kept out of an installer: fedora lines 58-63, rhel9 lines 593-598.\<close>

definition osc_users :: "externals \<Rightarrow> imageType \<Rightarrow> Customizations \<Rightarrow> OSCustomizations \<Rightarrow> OSCustomizations" where
  "osc_users ext t c osc =
     (if \<not> bootISO t then
        osc\<lparr>Groups := GroupsFromBP ext (GetGroups c), Users := UsersFromBP ext (GetUsers c)\<rparr>
      else osc)"

text \<open>Services and default target: fedora lines 65-69, rhel9 lines 600-604.\<close>

definition osc_services :: "ImageConfig \<Rightarrow> OSCustomizations \<Rightarrow> OSCustomizations" where
  "osc_services imageConfig osc =
     (let osc = osc\<lparr>EnabledServices := ic_EnabledServices imageConfig,
                     DisabledServices := ic_DisabledServices imageConfig\<rparr>
      in case ic_DefaultTarget imageConfig of
           None \<Rightarrow> osc
         | Some target \<Rightarrow> osc\<lparr>DefaultTarget := target\<rparr>)"

text \<open>
  Firewall, package fedora (lines 71-81): the options are built from the ports and the
  services of the blueprint; the zones of the blueprint are not read, and the firewall
  of the image configuration is not read either.
\<close>

definition firewall_options :: "FirewallCustomization \<Rightarrow> FirewallStageOptions" where
  "firewall_options fw =
     (let options = \<lparr>fso_Ports = fc_Ports fw, fso_EnabledServices = [],
                      fso_DisabledServices = [], fso_Zones = []\<rparr>
      in case fc_Services fw of
           None \<Rightarrow> options
         | Some services \<Rightarrow>
             options\<lparr>fso_EnabledServices := fsc_Enabled services,
                     fso_DisabledServices := fsc_Disabled services\<rparr>)"

definition fedora_osc_firewall :: "Customizations \<Rightarrow> OSCustomizations \<Rightarrow> OSCustomizations" where
  "fedora_osc_firewall c osc =
     (case GetFirewall c of
        None \<Rightarrow> osc
      | Some fw \<Rightarrow> osc\<lparr>Firewall := Some (firewall_options fw)\<rparr>)"

text \<open>
  Firewall, package rhel9 (lines 606-625): the firewall of the image configuration
  first, replaced by the options built from the blueprint when there is one. The loop
  over the zones (lines 617-622) reads \<^verbatim>\<open>*z.Name\<close>, which panics on a nil name.
\<close>

fun append_zones :: "FirewallZone list \<Rightarrow> FirewallZoneCustomization list \<Rightarrow> error + FirewallZone list" where
  "append_zones zones [] = Inr zones"
| "append_zones zones (z # zs) =
     (case fzc_Name z of
        None \<Rightarrow> Inl (Panic ''runtime error: invalid memory address or nil pointer dereference'')
      | Some name \<Rightarrow> append_zones (zones @ [\<lparr>fz_Name = name, fz_Sources = fzc_Sources z\<rparr>]) zs)"

definition rhel9_osc_firewall ::
  "ImageConfig \<Rightarrow> Customizations \<Rightarrow> OSCustomizations \<Rightarrow> error + OSCustomizations" where
  "rhel9_osc_firewall imageConfig c osc =
     (let osc = osc\<lparr>Firewall := ic_Firewall imageConfig\<rparr>
      in case GetFirewall c of
           None \<Rightarrow> Inr osc
         | Some fw \<Rightarrow>
             (let options = firewall_options fw
              in case append_zones (fso_Zones options) (fc_Zones fw) of
                   Inl e \<Rightarrow> Inl e
                 | Inr zones \<Rightarrow> Inr (osc\<lparr>Firewall := Some (options\<lparr>fso_Zones := zones\<rparr>)\<rparr>)))"

text \<open>Language and keyboard: fedora lines 83-93.\<close>

definition fedora_osc_locale :: "ImageConfig \<Rightarrow> Customizations \<Rightarrow> OSCustomizations \<Rightarrow> OSCustomizations" where
  "fedora_osc_locale imageConfig c osc =
     (let language = fst (GetPrimaryLocale c);
          keyboard = snd (GetPrimaryLocale c);
          osc = (case language of
                   Some l \<Rightarrow> osc\<lparr>Language := l\<rparr>
                 | None \<Rightarrow> (case ic_Locale imageConfig of
                              Some l \<Rightarrow> osc\<lparr>Language := l\<rparr>
                            | None \<Rightarrow> osc))
      in case keyboard of
           Some k \<Rightarrow> osc\<lparr>Keyboard := Some k\<rparr>
         | None \<Rightarrow> (case ic_Keyboard imageConfig of
                      Some kb \<Rightarrow> osc\<lparr>Keyboard := Some (kso_Keymap kb)\<rparr>
                    | None \<Rightarrow> osc))"

text \<open>Language and keyboard: rhel9 lines 627-640, with the X11 layouts.\<close>

definition rhel9_osc_locale :: "ImageConfig \<Rightarrow> Customizations \<Rightarrow> OSCustomizations \<Rightarrow> OSCustomizations" where
  "rhel9_osc_locale imageConfig c osc =
     (let language = fst (GetPrimaryLocale c);
          keyboard = snd (GetPrimaryLocale c);
          osc = (case language of
                   Some l \<Rightarrow> osc\<lparr>Language := l\<rparr>
                 | None \<Rightarrow> (case ic_Locale imageConfig of
                              Some l \<Rightarrow> osc\<lparr>Language := l\<rparr>
                            | None \<Rightarrow> osc))
      in case keyboard of
           Some k \<Rightarrow> osc\<lparr>Keyboard := Some k\<rparr>
         | None \<Rightarrow> (case ic_Keyboard imageConfig of
                      Some kb \<Rightarrow>
                        (let osc = osc\<lparr>Keyboard := Some (kso_Keymap kb)\<rparr>
                         in case kso_X11Keymap kb of
                              Some x11 \<Rightarrow> osc\<lparr>X11KeymapLayouts := x11_Layouts x11\<rparr>
                            | None \<Rightarrow> osc)
                    | None \<Rightarrow> osc))"

text \<open>Hostname: fedora lines 95-99, with the fixed fallback; rhel9 lines 642-644, without.\<close>

definition fedora_osc_hostname :: "Customizations \<Rightarrow> OSCustomizations \<Rightarrow> OSCustomizations" where
  "fedora_osc_hostname c osc =
     (case GetHostname c of
        Some hostname \<Rightarrow> osc\<lparr>Hostname := hostname\<rparr>
      | None \<Rightarrow> osc\<lparr>Hostname := ''localhost.localdomain''\<rparr>)"

definition rhel9_osc_hostname :: "Customizations \<Rightarrow> OSCustomizations \<Rightarrow> OSCustomizations" where
  "rhel9_osc_hostname c osc =
     (case GetHostname c of
        Some hostname \<Rightarrow> osc\<lparr>Hostname := hostname\<rparr>
      | None \<Rightarrow> osc)"

text \<open>Timezone: fedora lines 101-106, rhel9 lines 646-651.\<close>

definition osc_timezone :: "ImageConfig \<Rightarrow> Customizations \<Rightarrow> OSCustomizations \<Rightarrow> OSCustomizations" where
  "osc_timezone imageConfig c osc =
     (case fst (GetTimezoneSettings c) of
        Some tz \<Rightarrow> osc\<lparr>Timezone := tz\<rparr>
      | None \<Rightarrow> (case ic_Timezone imageConfig of
                   Some tz \<Rightarrow> osc\<lparr>Timezone := tz\<rparr>
                 | None \<Rightarrow> osc))"

text \<open>
  NTP servers: fedora lines 108-114; rhel9 lines 653-660, which also takes the leap
  second timezone of the image configuration. The loop appends one record per server.
\<close>

definition append_servers :: "ChronyConfigServer list \<Rightarrow> string list \<Rightarrow> ChronyConfigServer list" where
  "append_servers servers ntpServers =
     foldl (\<lambda>acc server. acc @ [\<lparr>ccs_Hostname = server\<rparr>]) servers ntpServers"

definition fedora_osc_ntp :: "ImageConfig \<Rightarrow> Customizations \<Rightarrow> OSCustomizations \<Rightarrow> OSCustomizations" where
  "fedora_osc_ntp imageConfig c osc =
     (let ntpServers = snd (GetTimezoneSettings c)
      in if length ntpServers > 0 then
           osc\<lparr>NTPServers := append_servers (NTPServers osc) ntpServers\<rparr>
         else (case ic_TimeSynchronization imageConfig of
                 Some ts \<Rightarrow> osc\<lparr>NTPServers := cso_Servers ts\<rparr>
               | None \<Rightarrow> osc))"

definition rhel9_osc_ntp :: "ImageConfig \<Rightarrow> Customizations \<Rightarrow> OSCustomizations \<Rightarrow> OSCustomizations" where
  "rhel9_osc_ntp imageConfig c osc =
     (let ntpServers = snd (GetTimezoneSettings c)
      in if length ntpServers > 0 then
           osc\<lparr>NTPServers := append_servers (NTPServers osc) ntpServers\<rparr>
         else (case ic_TimeSynchronization imageConfig of
                 Some ts \<Rightarrow> osc\<lparr>NTPServers := cso_Servers ts, LeapSecTZ := cso_LeapsecTz ts\<rparr>
               | None \<Rightarrow> osc))"

text \<open>SELinux: fedora lines 116-119, rhel9 lines 662-665.\<close>

definition osc_selinux :: "ImageConfig \<Rightarrow> OSCustomizations \<Rightarrow> OSCustomizations" where
  "osc_selinux imageConfig osc =
     (if ic_NoSElinux imageConfig = None
         \<or> (ic_NoSElinux imageConfig \<noteq> None \<and> ic_NoSElinux imageConfig \<noteq> Some True)
      then osc\<lparr>SElinux := ''targeted''\<rparr>
      else osc)"

text \<open>
  OpenSCAP: fedora lines 121-135, rhel9 lines 667-681. Both panic when the image type
  is an rpm-ostree one; they differ in the default datastream.
\<close>

definition osc_oscap :: "string \<Rightarrow> imageType \<Rightarrow> Customizations \<Rightarrow> OSCustomizations \<Rightarrow> error + OSCustomizations" where
  "osc_oscap defaultDatastream t c osc =
     (case GetOpenSCAP c of
        None \<Rightarrow> Inr osc
      | Some oscapConfig \<Rightarrow>
          if rpmOstree t then Inl (Panic ''unexpected oscap options for ostree image type'')
          else
            (let datastream = oc_DataStream oscapConfig;
                 datastream = (if datastream = [] then defaultDatastream else datastream)
             in Inr (osc\<lparr>OpenSCAPConfig :=
                       Some (NewOscapRemediationStageOptions
                               \<lparr>ocfg_Datastream = datastream,
                                ocfg_ProfileID = oc_ProfileID oscapConfig\<rparr>)\<rparr>)))"

text \<open>The API type of the facts, rhel9 lines 683-685.\<close>

definition rhel9_osc_facts :: "imageType \<Rightarrow> DistroImageOptions \<Rightarrow> OSCustomizations \<Rightarrow> OSCustomizations" where
  "rhel9_osc_facts t options osc =
     (if isRHEL (distro t) then
        (case io_Facts options of
           Some facts \<Rightarrow> osc\<lparr>FactAPIType := Some (APIType facts)\<rparr>
         | None \<Rightarrow> osc)
      else osc)"

text \<open>
  Directories and files: fedora lines 137-150, rhel9 lines 687-700. A failed conversion
  is a panic.
\<close>

definition osc_directories :: "externals \<Rightarrow> Customizations \<Rightarrow> OSCustomizations \<Rightarrow> error + OSCustomizations" where
  "osc_directories ext c osc =
     (case DirectoryCustomizationsToFsNodeDirectories ext (GetDirectories c) of
        Inl err \<Rightarrow>
          Inl (panic_with ''failed to convert directory customizations to fs node directories'' err)
      | Inr dirs \<Rightarrow> Inr (osc\<lparr>Directories := dirs\<rparr>))"

definition osc_files :: "externals \<Rightarrow> Customizations \<Rightarrow> OSCustomizations \<Rightarrow> error + OSCustomizations" where
  "osc_files ext c osc =
     (case FileCustomizationsToFsNodeFiles ext (GetFiles c) of
        Inl err \<Rightarrow> Inl (panic_with ''failed to convert file customizations to fs node files'' err)
      | Inr files \<Rightarrow> Inr (osc\<lparr>Files := files\<rparr>))"

text \<open>
  Custom repositories and their GPG keys: fedora lines 152-175, rhel9 lines 706-729.
  The key files are appended to the files, and one stage option per file name is
  appended to the yum repositories.
\<close>

definition osc_repos :: "externals \<Rightarrow> Customizations \<Rightarrow> OSCustomizations \<Rightarrow> error + OSCustomizations" where
  "osc_repos ext c osc =
     (case GetRepositories c of
        Inl err \<Rightarrow> Inl (panic_with ''failed to get custom repos'' err)
      | Inr customRepos \<Rightarrow>
          (case RepoCustomizationsToRepoConfigAndGPGKeyFiles ext customRepos of
             Inl err \<Rightarrow> Inl (panic_with ''failed to convert inline gpgkeys to fs node files'' err)
           | Inr (yumRepos, gpgKeyFiles) \<Rightarrow>
               (let osc = (if length gpgKeyFiles > 0 then osc\<lparr>Files := Files osc @ gpgKeyFiles\<rparr>
                           else osc)
                in Inr (osc\<lparr>YUMRepos :=
                          foldl (\<lambda>acc (filename, repos). acc @ [NewYumReposStageOptions filename repos])
                            (YUMRepos osc) yumRepos\<rparr>))))"

text \<open>The rest of the image configuration, copied field by field: fedora lines 177-196.\<close>

definition fedora_osc_config :: "ImageConfig \<Rightarrow> OSCustomizations \<Rightarrow> OSCustomizations" where
  "fedora_osc_config imageConfig osc =
     osc\<lparr>ShellInit := ic_ShellInit imageConfig,
         Grub2Config := ic_Grub2Config imageConfig,
         Sysconfig := ic_Sysconfig imageConfig,
         SystemdLogind := ic_SystemdLogind imageConfig,
         CloudInit := ic_CloudInit imageConfig,
         Modprobe := ic_Modprobe imageConfig,
         DracutConf := ic_DracutConf imageConfig,
         SystemdUnit := ic_SystemdUnit imageConfig,
         Authselect := ic_Authselect imageConfig,
         SELinuxConfig := ic_SELinuxConfig imageConfig,
         Tuned := ic_Tuned imageConfig,
         Tmpfilesd := ic_Tmpfilesd imageConfig,
         PamLimitsConf := ic_PamLimitsConf imageConfig,
         Sysctld := ic_Sysctld imageConfig,
         DNFConfig := ic_DNFConfig imageConfig,
         SshdConfig := ic_SshdConfig imageConfig,
         AuthConfig := ic_Authconfig imageConfig,
         PwQuality := ic_PwQuality imageConfig,
         WSLConfig := ic_WSLConfig imageConfig\<rparr>"

text \<open>The same for rhel9, lines 731-756, with the subscription of the image options.\<close>

definition rhel9_osc_config :: "ImageConfig \<Rightarrow> DistroImageOptions \<Rightarrow> OSCustomizations \<Rightarrow> OSCustomizations" where
  "rhel9_osc_config imageConfig options osc =
     osc\<lparr>ShellInit := ic_ShellInit imageConfig,
         Grub2Config := ic_Grub2Config imageConfig,
         Sysconfig := ic_Sysconfig imageConfig,
         SystemdLogind := ic_SystemdLogind imageConfig,
         CloudInit := ic_CloudInit imageConfig,
         Modprobe := ic_Modprobe imageConfig,
         DracutConf := ic_DracutConf imageConfig,
         SystemdUnit := ic_SystemdUnit imageConfig,
         Authselect := ic_Authselect imageConfig,
         SELinuxConfig := ic_SELinuxConfig imageConfig,
         Tuned := ic_Tuned imageConfig,
         Tmpfilesd := ic_Tmpfilesd imageConfig,
         PamLimitsConf := ic_PamLimitsConf imageConfig,
         Sysctld := ic_Sysctld imageConfig,
         DNFConfig := ic_DNFConfig imageConfig,
         DNFAutomaticConfig := ic_DNFAutomaticConfig imageConfig,
         SshdConfig := ic_SshdConfig imageConfig,
         AuthConfig := ic_Authconfig imageConfig,
         PwQuality := ic_PwQuality imageConfig,
         RHSMConfig := ic_RHSMConfig imageConfig,
         Subscription := io_Subscription options,
         WAAgentConfig := ic_WAAgentConfig imageConfig,
         UdevRules := ic_UdevRules imageConfig,
         GCPGuestAgentConfig := ic_GCPGuestAgentConfig imageConfig,
         WSLConfig := ic_WSLConfig imageConfig\<rparr>"

text \<open>\<^verbatim>\<open>osCustomizations\<close> of package fedora: the blocks in the order of lines 30-198.\<close>

definition fedora_osCustomizations ::
  "externals \<Rightarrow> imageType \<Rightarrow> PackageSet \<Rightarrow> ContainerSourceSpec list \<Rightarrow> Customizations
     \<Rightarrow> error + OSCustomizations" where
  "fedora_osCustomizations ext t osPackageSet containers c =
     (let imageConfig = getDefaultImageConfig t;
          osc = OSCustomizations_zero;
          osc = osc_kernel t c osc;
          osc = osc_packages osPackageSet containers imageConfig osc;
          osc = osc_users ext t c osc;
          osc = osc_services imageConfig osc;
          osc = fedora_osc_firewall c osc;
          osc = fedora_osc_locale imageConfig c osc;
          osc = fedora_osc_hostname c osc;
          osc = osc_timezone imageConfig c osc;
          osc = fedora_osc_ntp imageConfig c osc;
          osc = osc_selinux imageConfig osc
      in bind_error (osc_oscap (DefaultFedoraDatastream ext) t c osc) (\<lambda>osc.
         bind_error (osc_directories ext c osc) (\<lambda>osc.
         bind_error (osc_files ext c osc) (\<lambda>osc.
         bind_error (osc_repos ext c osc) (\<lambda>osc.
         Inr (fedora_osc_config imageConfig osc))))))"

text \<open>\<^verbatim>\<open>osCustomizations\<close> of package rhel9: the blocks in the order of lines 565-758.\<close>

definition rhel9_osCustomizations ::
  "externals \<Rightarrow> imageType \<Rightarrow> PackageSet \<Rightarrow> DistroImageOptions \<Rightarrow> ContainerSourceSpec list
     \<Rightarrow> Customizations \<Rightarrow> error + OSCustomizations" where
  "rhel9_osCustomizations ext t osPackageSet options containers c =
     (let imageConfig = getDefaultImageConfig t;
          osc = OSCustomizations_zero;
          osc = osc_kernel t c osc;
          osc = osc_packages osPackageSet containers imageConfig osc;
          osc = osc_users ext t c osc;
          osc = osc_services imageConfig osc
      in bind_error (rhel9_osc_firewall imageConfig c osc) (\<lambda>osc.
         let osc = rhel9_osc_locale imageConfig c osc;
             osc = rhel9_osc_hostname c osc;
             osc = osc_timezone imageConfig c osc;
             osc = rhel9_osc_ntp imageConfig c osc;
             osc = osc_selinux imageConfig osc
         in
         bind_error (osc_oscap (DefaultRHEL9Datastream ext (isRHEL (distro t))) t c osc) (\<lambda>osc.
         let osc = rhel9_osc_facts t options osc in
         bind_error (osc_directories ext c osc) (\<lambda>osc.
         bind_error (osc_files ext c osc) (\<lambda>osc.
         let osc = osc\<lparr>YUMRepos := ic_YUMRepos imageConfig\<rparr> in
         bind_error (osc_repos ext c osc) (\<lambda>osc.
         Inr (rhel9_osc_config imageConfig options osc)))))))"

section \<open>Release versions (common.VersionLessThan)\<close>

text \<open>
  Modelled from the spec: \<^verbatim>\<open>common.VersionLessThan\<close> is in package
  \<^verbatim>\<open>internal/common\<close>, outside the sources modelled here; only its calls are in them. The
  spec describes it as a total order over dotted-decimal release strings with a
  distinguished rolling token that always compares as newest. A release string is read
  as the rolling token \<^verbatim>\<open>9-stream\<close> or as the list of its decimal components, split at
  the dots; releases are compared component by component from the left, and the rolling
  release is above them all. The spec gives no order to any other string: the
  comparison fails there.
\<close>

datatype version = Release "nat list" | Rolling

definition rolling_token :: string where
  "rolling_token = ''9-stream''"

fun split_dots :: "string \<Rightarrow> string list" where
  "split_dots [] = [[]]"
| "split_dots (x # xs) =
     (if x = CHR ''.'' then [] # split_dots xs
      else (case split_dots xs of
              [] \<Rightarrow> [[x]]
            | y # ys \<Rightarrow> (x # y) # ys))"

definition is_digit :: "char \<Rightarrow> bool" where
  "is_digit ch = ((of_char CHR ''0'' :: nat) \<le> of_char ch \<and> (of_char ch :: nat) \<le> of_char CHR ''9'')"

definition digit_value :: "char \<Rightarrow> nat" where
  "digit_value ch = of_char ch - of_char CHR ''0''"

definition parse_decimal :: "string \<Rightarrow> nat option" where
  "parse_decimal s =
     (if s \<noteq> [] \<and> list_all is_digit s
      then Some (foldl (\<lambda>n ch. 10 * n + digit_value ch) 0 s)
      else None)"

fun parse_components :: "string list \<Rightarrow> nat list option" where
  "parse_components [] = Some []"
| "parse_components (p # ps) =
     (case parse_decimal p of
        None \<Rightarrow> None
      | Some n \<Rightarrow> (case parse_components ps of
                     None \<Rightarrow> None
                   | Some ns \<Rightarrow> Some (n # ns)))"

definition parse_version :: "string \<Rightarrow> version option" where
  "parse_version s =
     (if s = rolling_token then Some Rolling
      else map_option Release (parse_components (split_dots s)))"

fun components_less :: "nat list \<Rightarrow> nat list \<Rightarrow> bool" where
  "components_less [] [] = False"
| "components_less [] (b # bs) = True"
| "components_less (a # as) [] = False"
| "components_less (a # as) (b # bs) = (a < b \<or> (a = b \<and> components_less as bs))"

fun version_less :: "version \<Rightarrow> version \<Rightarrow> bool" where
  "version_less Rolling _ = False"
| "version_less (Release as) Rolling = True"
| "version_less (Release as) (Release bs) = components_less as bs"

definition VersionLessThan :: "string \<Rightarrow> string \<Rightarrow> error + bool" where
  "VersionLessThan a b =
     (case (parse_version a, parse_version b) of
        (Some va, Some vb) \<Rightarrow> Inr (version_less va vb)
      | _ \<Rightarrow> Inl (Panic ''malformed version''))"

section \<open>Image kinds (package image)\<close>

text \<open>
  The image kinds that the image functions below fill in, with the fields they assign.
  Modelled from the spec: the constructors \<^verbatim>\<open>image.New...\<close> are in package
  \<^verbatim>\<open>image\<close>; as the first step of a construction strategy they give the object of
  the kind, which holds the constructor's argument and the zero value in every field
  listed here.
\<close>

definition PackageSet_zero :: PackageSet where
  "PackageSet_zero = \<lparr>Include = [], Exclude = [], Repositories = []\<rparr>"

text \<open>Indexing a Go map: the zero value where the key is missing.\<close>

definition packageSet_at :: "(string \<rightharpoonup> PackageSet) \<Rightarrow> string \<Rightarrow> PackageSet" where
  "packageSet_at packageSets key =
     (case packageSets key of None \<Rightarrow> PackageSet_zero | Some ps \<Rightarrow> ps)"

record AnacondaLiveInstaller =
  ali_AdditionalKernelOpts :: "string list"
  ali_Platform :: "opaque option"
  ali_Workload :: "opaque option"
  ali_ExtraBasePackages :: PackageSet
  ali_ISOLabelTempl :: string
  ali_Product :: string
  ali_OSName :: string
  ali_OSVersion :: string
  ali_Release :: string
  ali_Filename :: string

definition NewAnacondaLiveInstaller :: AnacondaLiveInstaller where
  "NewAnacondaLiveInstaller =
     \<lparr>ali_AdditionalKernelOpts = [], ali_Platform = None, ali_Workload = None,
      ali_ExtraBasePackages = PackageSet_zero, ali_ISOLabelTempl = [], ali_Product = [],
      ali_OSName = [], ali_OSVersion = [], ali_Release = [], ali_Filename = []\<rparr>"

record AnacondaTarInstaller =
  ati_AdditionalAnacondaModules :: "string list"
  ati_AdditionalKernelOpts :: "string list"
  ati_Platform :: "opaque option"
  ati_Workload :: "opaque option"
  ati_OSCustomizations :: OSCustomizations
  ati_ExtraBasePackages :: PackageSet
  ati_Users :: "User list"
  ati_Groups :: "Group list"
  ati_SquashfsCompression :: string
  ati_AdditionalDracutModules :: "string list"
  ati_AdditionalDrivers :: "string list"
  ati_ISORootKickstart :: bool
  ati_ISOLabelTempl :: string
  ati_Product :: string
  ati_OSName :: string
  ati_OSVersion :: string
  ati_Release :: string
  ati_Filename :: string

definition NewAnacondaTarInstaller :: AnacondaTarInstaller where
  "NewAnacondaTarInstaller =
     \<lparr>ati_AdditionalAnacondaModules = [], ati_AdditionalKernelOpts = [],
      ati_Platform = None, ati_Workload = None, ati_OSCustomizations = OSCustomizations_zero,
      ati_ExtraBasePackages = PackageSet_zero, ati_Users = [], ati_Groups = [],
      ati_SquashfsCompression = [], ati_AdditionalDracutModules = [],
      ati_AdditionalDrivers = [], ati_ISORootKickstart = False, ati_ISOLabelTempl = [],
      ati_Product = [], ati_OSName = [], ati_OSVersion = [], ati_Release = [],
      ati_Filename = []\<rparr>"

record AnacondaOSTreeInstaller =
  aoi_Commit :: SourceSpec
  aoi_Platform :: "opaque option"
  aoi_ExtraBasePackages :: PackageSet
  aoi_Users :: "User list"
  aoi_Groups :: "Group list"
  aoi_AdditionalAnacondaModules :: "string list"
  aoi_SquashfsCompression :: string
  aoi_AdditionalDracutModules :: "string list"
  aoi_AdditionalDrivers :: "string list"
  aoi_ISOLabelTempl :: string
  aoi_Product :: string
  aoi_Variant :: string
  aoi_OSName :: string
  aoi_OSVersion :: string
  aoi_Release :: string
  aoi_Filename :: string

definition NewAnacondaOSTreeInstaller :: "SourceSpec \<Rightarrow> AnacondaOSTreeInstaller" where
  "NewAnacondaOSTreeInstaller commit =
     \<lparr>aoi_Commit = commit, aoi_Platform = None, aoi_ExtraBasePackages = PackageSet_zero,
      aoi_Users = [], aoi_Groups = [], aoi_AdditionalAnacondaModules = [],
      aoi_SquashfsCompression = [], aoi_AdditionalDracutModules = [],
      aoi_AdditionalDrivers = [], aoi_ISOLabelTempl = [], aoi_Product = [],
      aoi_Variant = [], aoi_OSName = [], aoi_OSVersion = [], aoi_Release = [],
      aoi_Filename = []\<rparr>"

record OSTreeArchive =
  oa_Ref :: string
  oa_Platform :: "opaque option"
  oa_OSCustomizations :: OSCustomizations
  oa_Environment :: "opaque option"
  oa_Workload :: "opaque option"
  oa_OSTreeParent :: "SourceSpec option"
  oa_OSVersion :: string
  oa_Filename :: string

definition NewOSTreeArchive :: "string \<Rightarrow> OSTreeArchive" where
  "NewOSTreeArchive ref =
     \<lparr>oa_Ref = ref, oa_Platform = None, oa_OSCustomizations = OSCustomizations_zero,
      oa_Environment = None, oa_Workload = None, oa_OSTreeParent = None,
      oa_OSVersion = [], oa_Filename = []\<rparr>"

text \<open>\<^verbatim>\<open>strings.HasPrefix\<close> and the text of an error (\<^verbatim>\<open>err.Error()\<close>).\<close>

definition HasPrefix :: "string \<Rightarrow> string \<Rightarrow> bool" where
  "HasPrefix s pre = (take (length pre) s = pre)"

definition error_text :: "error \<Rightarrow> string" where
  "error_text err = (case err of Errorf m \<Rightarrow> m | Panic m \<Rightarrow> m)"

section \<open>Image functions\<close>

text \<open>
  \<^verbatim>\<open>liveInstallerImage\<close>, package fedora, lines 248-284. The web UI kernel option is
  gated on the release version (lines 260-267).
\<close>

definition fedora_liveInstallerImage ::
  "externals \<Rightarrow> opaque option \<Rightarrow> imageType \<Rightarrow> (string \<rightharpoonup> PackageSet)
     \<Rightarrow> error + AnacondaLiveInstaller" where
  "fedora_liveInstallerImage ext workload t packageSets =
     (let img = NewAnacondaLiveInstaller;
          d = distro t
      in bind_error (VersionLessThan (d_Releasever d) ''39'') (\<lambda>older.
         let img = (if older then img\<lparr>ali_AdditionalKernelOpts := []\<rparr>
                    else img\<lparr>ali_AdditionalKernelOpts := [''inst.webui'']\<rparr>)
         in Inr (img\<lparr>ali_Platform := platform t,
                     ali_Workload := workload,
                     ali_ExtraBasePackages := packageSet_at packageSets (installerPkgsKey ext),
                     ali_ISOLabelTempl := isolabelTmpl d,
                     ali_Product := product d,
                     ali_OSName := ''fedora'',
                     ali_OSVersion := osVersion d,
                     ali_Release := product d @ '' '' @ osVersion d,
                     ali_Filename := t_Filename t\<rparr>)))"

text \<open>\<^verbatim>\<open>imageInstallerImage\<close>, package fedora, lines 286-328.\<close>

definition fedora_imageInstallerImage ::
  "externals \<Rightarrow> opaque option \<Rightarrow> imageType \<Rightarrow> Customizations \<Rightarrow> (string \<rightharpoonup> PackageSet)
     \<Rightarrow> ContainerSourceSpec list \<Rightarrow> error + AnacondaTarInstaller" where
  "fedora_imageInstallerImage ext workload t customizations packageSets containers =
     (let img = NewAnacondaTarInstaller;
          d = distro t
      in bind_error
           (if HasPrefix (d_Name d) ''fedora'' then
              bind_error (VersionLessThan (d_Releasever d) ''38'') (\<lambda>older.
                if \<not> older then
                  Inr (img\<lparr>ati_AdditionalAnacondaModules :=
                              [''org.fedoraproject.Anaconda.Modules.Security'',
                               ''org.fedoraproject.Anaconda.Modules.Timezone'',
                               ''org.fedoraproject.Anaconda.Modules.Localization''],
                            ati_AdditionalKernelOpts := [''inst.webui'', ''inst.webui.remote'']\<rparr>)
                else Inr img)
            else Inr img) (\<lambda>img.
         let img = img\<lparr>ati_AdditionalAnacondaModules :=
                         ati_AdditionalAnacondaModules img
                           @ [''org.fedoraproject.Anaconda.Modules.Users''],
                       ati_Platform := platform t,
                       ati_Workload := workload\<rparr>
         in bind_error
              (fedora_osCustomizations ext t (packageSet_at packageSets (osPkgsKey ext))
                 containers customizations) (\<lambda>osc.
         Inr (img\<lparr>ati_OSCustomizations := osc,
                  ati_ExtraBasePackages := packageSet_at packageSets (installerPkgsKey ext),
                  ati_Users := UsersFromBP ext (GetUsers customizations),
                  ati_Groups := GroupsFromBP ext (GetGroups customizations),
                  ati_SquashfsCompression := ''lz4'',
                  ati_ISOLabelTempl := isolabelTmpl d,
                  ati_Product := product d,
                  ati_OSName := ''fedora'',
                  ati_OSVersion := osVersion d,
                  ati_Release := product d @ '' '' @ osVersion d,
                  ati_Filename := t_Filename t\<rparr>))))"

text \<open>
  \<^verbatim>\<open>iotInstallerImage\<close>, package fedora, lines 376-415. The three Anaconda modules
  are a fixed list (lines 397-401).
\<close>

definition fedora_iotInstallerImage ::
  "externals \<Rightarrow> imageType \<Rightarrow> Customizations \<Rightarrow> DistroImageOptions \<Rightarrow> (string \<rightharpoonup> PackageSet)
     \<Rightarrow> error + AnacondaOSTreeInstaller" where
  "fedora_iotInstallerImage ext t customizations options packageSets =
     (let d = distro t
      in case fedora_makeOSTreePayloadCommit (io_OSTree options) (t_OSTreeRef t) of
           Inl err \<Rightarrow> Inl (Errorf (t_Name t @ '': '' @ error_text err))
         | Inr commit \<Rightarrow>
             (let img = NewAnacondaOSTreeInstaller commit
              in Inr (img\<lparr>aoi_Platform := platform t,
                          aoi_ExtraBasePackages := packageSet_at packageSets (installerPkgsKey ext),
                          aoi_Users := UsersFromBP ext (GetUsers customizations),
                          aoi_Groups := GroupsFromBP ext (GetGroups customizations),
                          aoi_AdditionalAnacondaModules :=
                            [''org.fedoraproject.Anaconda.Modules.Timezone'',
                             ''org.fedoraproject.Anaconda.Modules.Localization'',
                             ''org.fedoraproject.Anaconda.Modules.Users''],
                          aoi_SquashfsCompression := ''lz4'',
                          aoi_ISOLabelTempl := isolabelTmpl d,
                          aoi_Product := product d,
                          aoi_Variant := ''IoT'',
                          aoi_OSName := ''fedora'',
                          aoi_OSVersion := osVersion d,
                          aoi_Release := product d @ '' '' @ osVersion d,
                          aoi_Filename := t_Filename t\<rparr>)))"

text \<open>
  \<^verbatim>\<open>edgeCommitImage\<close>, package rhel9, lines 787-817. The two first-boot services are
  gated on the version of the distribution (lines 806-808); the left operand of
  \<^verbatim>\<open>||\<close> is evaluated first.
\<close>

definition rhel9_edgeCommitImage ::
  "externals \<Rightarrow> opaque option \<Rightarrow> imageType \<Rightarrow> Customizations \<Rightarrow> DistroImageOptions
     \<Rightarrow> (string \<rightharpoonup> PackageSet) \<Rightarrow> ContainerSourceSpec list \<Rightarrow> error + OSTreeArchive" where
  "rhel9_edgeCommitImage ext workload t customizations options packageSets containers =
     (let (parentCommit, commitRef) = rhel9_makeOSTreeParentCommit (io_OSTree options) (t_OSTreeRef t);
          img = NewOSTreeArchive commitRef;
          img = img\<lparr>oa_Platform := platform t\<rparr>
      in bind_error
           (rhel9_osCustomizations ext t (packageSet_at packageSets (osPkgsKey ext)) options
              containers customizations) (\<lambda>osc.
         let img = img\<lparr>oa_OSCustomizations := osc,
                       oa_Environment := environment t,
                       oa_Workload := workload,
                       oa_OSTreeParent := parentCommit,
                       oa_OSVersion := osVersion (distro t),
                       oa_Filename := t_Filename t\<rparr>
         in bind_error (VersionLessThan (osVersion (distro t)) ''9.2'') (\<lambda>older.
         let img = (if \<not> older \<or> osVersion (distro t) = ''9-stream'' then
                      img\<lparr>oa_OSCustomizations :=
                            (oa_OSCustomizations img)\<lparr>EnabledServices :=
                               EnabledServices (oa_OSCustomizations img)
                                 @ [''ignition-firstboot-complete.service'',
                                    ''coreos-ignition-write-issues.service'']\<rparr>\<rparr>
                    else img)
         in Inr (img\<lparr>oa_Environment := environment t,
                     oa_Workload := workload,
                     oa_OSVersion := osVersion (distro t),
                     oa_Filename := t_Filename t\<rparr>))))"

text \<open>
  \<^verbatim>\<open>edgeInstallerImage\<close>, package rhel9, lines 847-892. The users module is enabled
  only when there is a user or a group (lines 877-880).
\<close>

definition rhel9_edgeInstallerImage ::
  "externals \<Rightarrow> imageType \<Rightarrow> Customizations \<Rightarrow> DistroImageOptions \<Rightarrow> (string \<rightharpoonup> PackageSet)
     \<Rightarrow> error + AnacondaOSTreeInstaller" where
  "rhel9_edgeInstallerImage ext t customizations options packageSets =
     (let d = distro t
      in case rhel9_makeOSTreePayloadCommit (io_OSTree options) (t_OSTreeRef t) of
           Inl err \<Rightarrow> Inl (Errorf (t_Name t @ '': '' @ error_text err))
         | Inr commit \<Rightarrow>
             (let img = NewAnacondaOSTreeInstaller commit;
                  img = img\<lparr>aoi_Platform := platform t,
                            aoi_ExtraBasePackages := packageSet_at packageSets (installerPkgsKey ext),
                            aoi_Users := UsersFromBP ext (GetUsers customizations),
                            aoi_Groups := GroupsFromBP ext (GetGroups customizations),
                            aoi_SquashfsCompression := ''xz'',
                            aoi_AdditionalDracutModules :=
                              [''nvdimm'', ''prefixdevname'', ''prefixdevname-tools''],
                            aoi_AdditionalDrivers := [''cuse'', ''ipmi_devintf'', ''ipmi_msghandler'']\<rparr>;
                  img = (if length (aoi_Users img) + length (aoi_Groups img) > 0 then
                           img\<lparr>aoi_AdditionalAnacondaModules :=
                                 [''org.fedoraproject.Anaconda.Modules.Users'']\<rparr>
                         else img)
              in Inr (img\<lparr>aoi_ISOLabelTempl := isolabelTmpl d,
                          aoi_Product := product d,
                          aoi_Variant := ''edge'',
                          aoi_OSName := ''rhel'',
                          aoi_OSVersion := osVersion d,
                          aoi_Release := product d @ '' '' @ osVersion d,
                          aoi_Filename := t_Filename t\<rparr>)))"

text \<open>\<^verbatim>\<open>imageInstallerImage\<close>, package rhel9, lines 1045-1086.\<close>

definition rhel9_imageInstallerImage ::
  "externals \<Rightarrow> opaque option \<Rightarrow> imageType \<Rightarrow> Customizations \<Rightarrow> DistroImageOptions
     \<Rightarrow> (string \<rightharpoonup> PackageSet) \<Rightarrow> ContainerSourceSpec list \<Rightarrow> error + AnacondaTarInstaller" where
  "rhel9_imageInstallerImage ext workload t customizations options packageSets containers =
     (let img = NewAnacondaTarInstaller;
          img = img\<lparr>ati_Platform := platform t, ati_Workload := workload\<rparr>
      in bind_error
           (rhel9_osCustomizations ext t (packageSet_at packageSets (osPkgsKey ext)) options
              containers customizations) (\<lambda>osc.
         let d = distro t
         in Inr (img\<lparr>ati_OSCustomizations := osc,
                     ati_ExtraBasePackages := packageSet_at packageSets (installerPkgsKey ext),
                     ati_Users := UsersFromBP ext (GetUsers customizations),
                     ati_Groups := GroupsFromBP ext (GetGroups customizations),
                     ati_AdditionalDracutModules :=
                       [''nvdimm'', ''prefixdevname'', ''prefixdevname-tools''],
                     ati_AdditionalDrivers := [''cuse'', ''ipmi_devintf'', ''ipmi_msghandler''],
                     ati_AdditionalAnacondaModules :=
                       [''org.fedoraproject.Anaconda.Modules.Users''],
                     ati_SquashfsCompression := ''xz'',
                     ati_ISORootKickstart := True,
                     ati_ISOLabelTempl := isolabelTmpl d,
                     ati_Product := product d,
                     ati_OSName := ''redhat'',
                     ati_OSVersion := osVersion d,
                     ati_Release := product d @ '' '' @ osVersion d,
                     ati_Filename := t_Filename t\<rparr>)))"

section \<open>The OSTree resolver of the build tool\<close>

subsection \<open>SHA-256 (crypto/sha256) and hexadecimal formatting\<close>

text \<open>
  \<^verbatim>\<open>sha256.Sum256\<close> of the Go library, after FIPS 180-4: the message is padded to a
  multiple of 64 bytes, and each block of 16 big-endian words drives 64 rounds over
  eight 32-bit words.
\<close>

type_synonym u32 = "32 word"
type_synonym byte = "8 word"
type_synonym sha_state = "u32 \<times> u32 \<times> u32 \<times> u32 \<times> u32 \<times> u32 \<times> u32 \<times> u32"

definition rotr :: "nat \<Rightarrow> u32 \<Rightarrow> u32" where
  "rotr n x = drop_bit n x OR push_bit (32 - n) x"

definition Ch :: "u32 \<Rightarrow> u32 \<Rightarrow> u32 \<Rightarrow> u32" where
  "Ch x y z = (x AND y) XOR (NOT x AND z)"

definition Maj :: "u32 \<Rightarrow> u32 \<Rightarrow> u32 \<Rightarrow> u32" where
  "Maj x y z = (x AND y) XOR (x AND z) XOR (y AND z)"

definition Sigma0 :: "u32 \<Rightarrow> u32" where
  "Sigma0 x = rotr 2 x XOR rotr 13 x XOR rotr 22 x"

definition Sigma1 :: "u32 \<Rightarrow> u32" where
  "Sigma1 x = rotr 6 x XOR rotr 11 x XOR rotr 25 x"

definition sigma0 :: "u32 \<Rightarrow> u32" where
  "sigma0 x = rotr 7 x XOR rotr 18 x XOR drop_bit 3 x"

definition sigma1 :: "u32 \<Rightarrow> u32" where
  "sigma1 x = rotr 17 x XOR rotr 19 x XOR drop_bit 10 x"

text \<open>
  The round constants (the table \<^verbatim>\<open>_K\<close> of the library: the first 32 bits of the
  fractional parts of the cube roots of the first 64 primes) and the initial state
  (\<^verbatim>\<open>init0\<close> to \<^verbatim>\<open>init7\<close>: the same of the square roots of the first 8 primes),
  written in decimal.
\<close>

definition sha256_K :: "u32 list" where
  "sha256_K =
     [1116352408, 1899447441, 3049323471, 3921009573, 961987163, 1508970993,
      2453635748, 2870763221, 3624381080, 310598401, 607225278, 1426881987,
      1925078388, 2162078206, 2614888103, 3248222580, 3835390401, 4022224774,
      264347078, 604807628, 770255983, 1249150122, 1555081692, 1996064986,
      2554220882, 2821834349, 2952996808, 3210313671, 3336571891, 3584528711,
      113926993, 338241895, 666307205, 773529912, 1294757372, 1396182291,
      1695183700, 1986661051, 2177026350, 2456956037, 2730485921, 2820302411,
      3259730800, 3345764771, 3516065817, 3600352804, 4094571909, 275423344,
      430227734, 506948616, 659060556, 883997877, 958139571, 1322822218,
      1537002063, 1747873779, 1955562222, 2024104815, 2227730452, 2361852424,
      2428436474, 2756734187, 3204031479, 3329325298]"

definition sha256_init :: sha_state where
  "sha256_init =
     (1779033703, 3144134277, 1013904242, 2773480762,
      1359893119, 2600822924, 528734635, 1541459225)"

fun be_words :: "byte list \<Rightarrow> u32 list" where
  "be_words (a # b # c # d # rest) =
     (push_bit 24 (ucast a) OR push_bit 16 (ucast b) OR push_bit 8 (ucast c) OR ucast d)
       # be_words rest"
| "be_words _ = []"

fun extend_schedule :: "nat \<Rightarrow> u32 list \<Rightarrow> u32 list" where
  "extend_schedule 0 w = w"
| "extend_schedule (Suc n) w =
     (let t = length w
      in extend_schedule n
           (w @ [sigma1 (w ! (t - 2)) + w ! (t - 7) + sigma0 (w ! (t - 15)) + w ! (t - 16)]))"

fun sha256_round :: "sha_state \<Rightarrow> u32 \<times> u32 \<Rightarrow> sha_state" where
  "sha256_round (a, b, c, d, e, f, g, h) (k, w) =
     (let t1 = h + Sigma1 e + Ch e f g + k + w;
          t2 = Sigma0 a + Maj a b c
      in (t1 + t2, a, b, c, d + t1, e, f, g))"

fun add_state :: "sha_state \<Rightarrow> sha_state \<Rightarrow> sha_state" where
  "add_state (a, b, c, d, e, f, g, h) (a', b', c', d', e', f', g', h') =
     (a + a', b + b', c + c', d + d', e + e', f + f', g + g', h + h')"

definition sha256_block :: "sha_state \<Rightarrow> byte list \<Rightarrow> sha_state" where
  "sha256_block st block =
     add_state st (foldl sha256_round st (zip sha256_K (extend_schedule 48 (be_words block))))"

definition be_bytes32 :: "u32 \<Rightarrow> byte list" where
  "be_bytes32 x = [ucast (drop_bit 24 x), ucast (drop_bit 16 x), ucast (drop_bit 8 x), ucast x]"

definition be_bytes64 :: "64 word \<Rightarrow> byte list" where
  "be_bytes64 x =
     [ucast (drop_bit 56 x), ucast (drop_bit 48 x), ucast (drop_bit 40 x), ucast (drop_bit 32 x),
      ucast (drop_bit 24 x), ucast (drop_bit 16 x), ucast (drop_bit 8 x), ucast x]"

definition sha256_pad :: "byte list \<Rightarrow> byte list" where
  "sha256_pad msg =
     msg @ [0x80] @ replicate ((119 - length msg mod 64) mod 64) 0
       @ be_bytes64 (of_nat (8 * length msg))"

fun blocks_of :: "nat \<Rightarrow> byte list \<Rightarrow> byte list list" where
  "blocks_of 0 bs = []"
| "blocks_of (Suc n) bs = take 64 bs # blocks_of n (drop 64 bs)"

definition Sum256 :: "byte list \<Rightarrow> byte list" where
  "Sum256 msg =
     (let padded = sha256_pad msg;
          (a, b, c, d, e, f, g, h) =
            foldl sha256_block sha256_init (blocks_of (length padded div 64) padded)
      in concat (map be_bytes32 [a, b, c, d, e, f, g, h]))"

text \<open>The bytes of a Go string, and \<^verbatim>\<open>fmt.Sprintf("%x", bytes)\<close>.\<close>

definition bytes_of :: "string \<Rightarrow> byte list" where
  "bytes_of s = map (\<lambda>ch. of_nat (of_char ch)) s"

definition hex_digit :: "nat \<Rightarrow> char" where
  "hex_digit n = ''0123456789abcdef'' ! (n mod 16)"

definition hex_bytes :: "byte list \<Rightarrow> string" where
  "hex_bytes bs = concat (map (\<lambda>b. [hex_digit (unat b div 16), hex_digit (unat b mod 16)]) bs)"

subsection \<open>resolveCommit\<close>

text \<open>\<^verbatim>\<open>ostree.CommitSpec\<close>, and \<^verbatim>\<open>resolveCommit\<close> of the build tool (lines 235-248).\<close>

record CommitSpec =
  cs_Ref :: string
  cs_URL :: string
  cs_Checksum :: string
  cs_Secrets :: string

definition resolveCommit :: "SourceSpec \<Rightarrow> CommitSpec" where
  "resolveCommit commitSource =
     (let checksum = hex_bytes (Sum256 (bytes_of (srcURL commitSource @ srcRef commitSource)));
          spec = \<lparr>cs_Ref = srcRef commitSource, cs_URL = srcURL commitSource,
                  cs_Checksum = checksum, cs_Secrets = []\<rparr>
      in if srcRHSM commitSource then spec\<lparr>cs_Secrets := ''org.osbuild.rhsm.consumer''\<rparr>
         else spec)"

section \<open>Writing the manifest: save\<close>

subsection \<open>The manifest as a JSON document\<close>



subsection \<open>json.MarshalIndent (encoding/json)\<close>

















subsection \<open>save\<close>






subsection \<open>Alphabets of the encoder\<close>


definition hex_alphabet :: string where
  "hex_alphabet = ''0123456789abcdef''"



definition occurs_in :: "string \<Rightarrow> string \<Rightarrow> bool" where
  "occurs_in xs ys = (\<exists>p q. ys = p @ xs @ q)"

section \<open>Joining strings (strings.Join)\<close>

text \<open>
  \<^verbatim>\<open>strings.Join\<close> of the Go library, with which a list of kernel options becomes
  one kernel command line.
\<close>

fun strings_Join :: "string list \<Rightarrow> string \<Rightarrow> string" where
  "strings_Join [] sep = []"
| "strings_Join [x] sep = x"
| "strings_Join (x # y # ys) sep = x @ sep @ strings_Join (y # ys) sep"

section \<open>Example inputs\<close>

text \<open>OSTree options with a repository URL and nothing else, and with an image ref.\<close>

definition example_ostree :: ImageOptions where
  "example_ostree =
     \<lparr>URL = ''https://example.org/repo'', ImageRef = [], ParentRef = [], RHSM = True,
      ContentURL = []\<rparr>"

definition example_ostree_ref :: ImageOptions where
  "example_ostree_ref = example_ostree\<lparr>ImageRef := ''test/edge''\<rparr>"

text \<open>
  Conversions that keep the name of each item, datastreams and package set keys for
  the parameters of the model.
\<close>

definition example_externals :: externals where
  "example_externals =
     \<lparr>GroupsFromBP = map (\<lambda>g. case g of GroupCustomization n \<Rightarrow> Group n),
      UsersFromBP = map (\<lambda>u. case u of UserCustomization n \<Rightarrow> User n),
      DefaultFedoraDatastream = ''/usr/share/xml/scap/ssg/content/ssg-fedora-ds.xml'',
      DefaultRHEL9Datastream =
        (\<lambda>rhel. if rhel then ''/usr/share/xml/scap/ssg/content/ssg-rhel9-ds.xml''
                 else ''/usr/share/xml/scap/ssg/content/ssg-cs9-ds.xml''),
      DirectoryCustomizationsToFsNodeDirectories =
        (\<lambda>ds. Inr (map (\<lambda>d. case d of DirectoryCustomization p \<Rightarrow> Directory p) ds)),
      FileCustomizationsToFsNodeFiles =
        (\<lambda>fs. Inr (map (\<lambda>f. case f of FileCustomization p \<Rightarrow> File p) fs)),
      RepoCustomizationsToRepoConfigAndGPGKeyFiles =
        (\<lambda>rs. Inr (map (\<lambda>r. case r of RepositoryCustomization n \<Rightarrow> (n, [RepoConfig n])) rs, [])),
      osPkgsKey = ''os'', installerPkgsKey = ''installer'', containerPkgsKey = ''container''\<rparr>"

text \<open>
  An image configuration whose only setting is a firewall that enables \<^verbatim>\<open>ssh\<close>, and
  image types over it: a bootable disk image with the kernel options \<^verbatim>\<open>quiet\<close>, an
  installer, and a plain archive.
\<close>

definition example_imageConfig :: ImageConfig where
  "example_imageConfig =
     \<lparr>ic_GPGKeyFiles = [], ic_ExcludeDocs = None, ic_EnabledServices = [],
      ic_DisabledServices = [], ic_DefaultTarget = None,
      ic_Firewall = Some \<lparr>fso_Ports = [], fso_EnabledServices = [''ssh''],
                           fso_DisabledServices = [], fso_Zones = []\<rparr>,
      ic_Locale = None, ic_Keyboard = None, ic_Timezone = None,
      ic_TimeSynchronization = None, ic_NoSElinux = None, ic_YUMRepos = [],
      ic_ShellInit = None, ic_Grub2Config = None, ic_Sysconfig = None,
      ic_SystemdLogind = None, ic_CloudInit = None, ic_Modprobe = None,
      ic_DracutConf = None, ic_SystemdUnit = None, ic_Authselect = None,
      ic_SELinuxConfig = None, ic_Tuned = None, ic_Tmpfilesd = None,
      ic_PamLimitsConf = None, ic_Sysctld = None, ic_DNFConfig = None,
      ic_DNFAutomaticConfig = None, ic_SshdConfig = None, ic_Authconfig = None,
      ic_PwQuality = None, ic_RHSMConfig = None, ic_WAAgentConfig = None,
      ic_UdevRules = None, ic_GCPGuestAgentConfig = None, ic_WSLConfig = None\<rparr>"

definition example_distro :: distribution where
  "example_distro =
     \<lparr>d_Name = ''fedora-39'', d_Releasever = ''39'', osVersion = ''39'', product = ''Fedora'',
      isolabelTmpl = ''Fedora-39-BaseOS-%s'', isRHEL = False\<rparr>"

definition example_disk :: imageType where
  "example_disk =
     \<lparr>t_Name = ''qcow2'', t_Filename = ''disk.qcow2'', t_OSTreeRef = [], bootable = True,
      rpmOstree = False, bootISO = False, kernelOptions = ''quiet'',
      getDefaultImageConfig = example_imageConfig, platform = None, environment = None,
      compression = [], distro = example_distro\<rparr>"

definition example_installer :: imageType where
  "example_installer =
     example_disk\<lparr>t_Name := ''image-installer'', t_Filename := ''installer.iso'',
                   bootISO := True\<rparr>"

definition example_archive :: imageType where
  "example_archive =
     example_disk\<lparr>t_Name := ''tar'', t_Filename := ''root.tar.xz'', bootable := False\<rparr>"

text \<open>
  Customizations with a kernel option, a user, a group and a firewall that enables
  \<^verbatim>\<open>http\<close> in a zone of its own; and the same without the firewall.
\<close>

definition example_customizations :: Customizations where
  "example_customizations =
     \<lparr>GetKernel = \<lparr>kc_Name = ''kernel'', kc_Append = ''debug''\<rparr>,
      GetGroups = [GroupCustomization ''wheel''],
      GetUsers = [UserCustomization ''alice''],
      GetFirewall =
        Some \<lparr>fc_Ports = [''8080:tcp''],
              fc_Services = Some \<lparr>fsc_Enabled = [''http''], fsc_Disabled = []\<rparr>,
              fc_Zones = [\<lparr>fzc_Name = Some ''trusted'', fzc_Sources = [''192.0.2.0/24'']\<rparr>]\<rparr>,
      GetPrimaryLocale = (None, None),
      GetHostname = None,
      GetTimezoneSettings = (None, []),
      GetOpenSCAP = None,
      GetDirectories = [],
      GetFiles = [],
      GetRepositories = Inr []\<rparr>"

definition example_no_firewall :: Customizations where
  "example_no_firewall = example_customizations\<lparr>GetFirewall := None\<rparr>"

definition example_image_options :: DistroImageOptions where
  "example_image_options = \<lparr>io_OSTree = None, io_Facts = None, io_Subscription = None\<rparr>"

text \<open>
  An rpm-ostree installer, customizations with no user and no group, and image options
  with the OSTree repository of above.
\<close>

definition example_ostree_installer :: imageType where
  "example_ostree_installer =
     example_disk\<lparr>t_Name := ''iot-installer'', t_Filename := ''installer.iso'',
                   t_OSTreeRef := ''fedora/39/x86_64/iot'', bootable := False,
                   rpmOstree := True, bootISO := True\<rparr>"

definition example_no_users :: Customizations where
  "example_no_users = example_customizations\<lparr>GetGroups := [], GetUsers := []\<rparr>"

definition example_ostree_options :: DistroImageOptions where
  "example_ostree_options = example_image_options\<lparr>io_OSTree := Some example_ostree\<rparr>"

text \<open>The same live installer on three releases.\<close>

definition example_live :: "string \<Rightarrow> imageType" where
  "example_live release =
     example_disk\<lparr>t_Name := ''live-installer'', t_Filename := ''live-installer.iso'',
                   bootISO := True,
                   distro := example_distro\<lparr>d_Releasever := release, osVersion := release\<rparr>\<rparr>"

text \<open>An rpm-ostree commit type of a distribution of a given version.\<close>

definition example_edge :: "string \<Rightarrow> imageType" where
  "example_edge version =
     example_disk\<lparr>t_Name := ''edge-commit'', t_Filename := ''commit.tar'',
                   t_OSTreeRef := ''rhel/9/x86_64/edge'', bootable := False, rpmOstree := True,
                   distro := example_distro\<lparr>d_Name := ''rhel-9'', osVersion := version\<rparr>\<rparr>"






section \<open>Facts about the blocks of the merge\<close>

text \<open>
  Which of the kernel, user, group and firewall fields each block leaves as they are;
  a fallible block is followed through its successful result.
\<close>

lemma bind_error_Inr: "bind_error m f = Inr y \<Longrightarrow> \<exists>x. m = Inr x \<and> f x = Inr y"
  by (cases m) (simp_all add: bind_error_def)

lemma bind_error_Inr_iff: "(bind_error m f = Inr y) = (\<exists>x. m = Inr x \<and> f x = Inr y)"
  by (cases m) (simp_all add: bind_error_def)

lemma osc_kernel_keeps:
  "Users (osc_kernel t c osc) = Users osc"
  "Groups (osc_kernel t c osc) = Groups osc"
  "Firewall (osc_kernel t c osc) = Firewall osc"
  by (simp_all add: osc_kernel_def Let_def)

lemma osc_packages_keeps:
  "KernelName (osc_packages ps cs ic osc) = KernelName osc"
  "KernelOptionsAppend (osc_packages ps cs ic osc) = KernelOptionsAppend osc"
  "Users (osc_packages ps cs ic osc) = Users osc"
  "Groups (osc_packages ps cs ic osc) = Groups osc"
  "Firewall (osc_packages ps cs ic osc) = Firewall osc"
  by (simp_all add: osc_packages_def Let_def split: option.splits)

lemma osc_users_keeps:
  "KernelName (osc_users ext t c osc) = KernelName osc"
  "KernelOptionsAppend (osc_users ext t c osc) = KernelOptionsAppend osc"
  "Firewall (osc_users ext t c osc) = Firewall osc"
  by (simp_all add: osc_users_def Let_def)

lemma osc_services_keeps:
  "KernelName (osc_services ic osc) = KernelName osc"
  "KernelOptionsAppend (osc_services ic osc) = KernelOptionsAppend osc"
  "Users (osc_services ic osc) = Users osc"
  "Groups (osc_services ic osc) = Groups osc"
  "Firewall (osc_services ic osc) = Firewall osc"
  by (simp_all add: osc_services_def Let_def split: option.splits)

lemma fedora_osc_firewall_keeps:
  "KernelName (fedora_osc_firewall c osc) = KernelName osc"
  "KernelOptionsAppend (fedora_osc_firewall c osc) = KernelOptionsAppend osc"
  "Users (fedora_osc_firewall c osc) = Users osc"
  "Groups (fedora_osc_firewall c osc) = Groups osc"
  by (simp_all add: fedora_osc_firewall_def Let_def split: option.splits)

lemma rhel9_osc_firewall_keeps:
  assumes "rhel9_osc_firewall ic c osc = Inr osc'"
  shows "KernelName osc' = KernelName osc"
    and "KernelOptionsAppend osc' = KernelOptionsAppend osc"
    and "Users osc' = Users osc"
    and "Groups osc' = Groups osc"
  using assms by (auto simp: rhel9_osc_firewall_def Let_def split: option.splits sum.splits)

lemma fedora_osc_locale_keeps:
  "KernelName (fedora_osc_locale ic c osc) = KernelName osc"
  "KernelOptionsAppend (fedora_osc_locale ic c osc) = KernelOptionsAppend osc"
  "Users (fedora_osc_locale ic c osc) = Users osc"
  "Groups (fedora_osc_locale ic c osc) = Groups osc"
  "Firewall (fedora_osc_locale ic c osc) = Firewall osc"
  by (simp_all add: fedora_osc_locale_def Let_def split: option.splits)

lemma rhel9_osc_locale_keeps:
  "KernelName (rhel9_osc_locale ic c osc) = KernelName osc"
  "KernelOptionsAppend (rhel9_osc_locale ic c osc) = KernelOptionsAppend osc"
  "Users (rhel9_osc_locale ic c osc) = Users osc"
  "Groups (rhel9_osc_locale ic c osc) = Groups osc"
  "Firewall (rhel9_osc_locale ic c osc) = Firewall osc"
  by (simp_all add: rhel9_osc_locale_def Let_def split: option.splits)

lemma fedora_osc_hostname_keeps:
  "KernelName (fedora_osc_hostname c osc) = KernelName osc"
  "KernelOptionsAppend (fedora_osc_hostname c osc) = KernelOptionsAppend osc"
  "Users (fedora_osc_hostname c osc) = Users osc"
  "Groups (fedora_osc_hostname c osc) = Groups osc"
  "Firewall (fedora_osc_hostname c osc) = Firewall osc"
  by (simp_all add: fedora_osc_hostname_def Let_def split: option.splits)

lemma rhel9_osc_hostname_keeps:
  "KernelName (rhel9_osc_hostname c osc) = KernelName osc"
  "KernelOptionsAppend (rhel9_osc_hostname c osc) = KernelOptionsAppend osc"
  "Users (rhel9_osc_hostname c osc) = Users osc"
  "Groups (rhel9_osc_hostname c osc) = Groups osc"
  "Firewall (rhel9_osc_hostname c osc) = Firewall osc"
  by (simp_all add: rhel9_osc_hostname_def Let_def split: option.splits)

lemma osc_timezone_keeps:
  "KernelName (osc_timezone ic c osc) = KernelName osc"
  "KernelOptionsAppend (osc_timezone ic c osc) = KernelOptionsAppend osc"
  "Users (osc_timezone ic c osc) = Users osc"
  "Groups (osc_timezone ic c osc) = Groups osc"
  "Firewall (osc_timezone ic c osc) = Firewall osc"
  by (simp_all add: osc_timezone_def Let_def split: option.splits)

lemma fedora_osc_ntp_keeps:
  "KernelName (fedora_osc_ntp ic c osc) = KernelName osc"
  "KernelOptionsAppend (fedora_osc_ntp ic c osc) = KernelOptionsAppend osc"
  "Users (fedora_osc_ntp ic c osc) = Users osc"
  "Groups (fedora_osc_ntp ic c osc) = Groups osc"
  "Firewall (fedora_osc_ntp ic c osc) = Firewall osc"
  by (simp_all add: fedora_osc_ntp_def Let_def split: option.splits)

lemma rhel9_osc_ntp_keeps:
  "KernelName (rhel9_osc_ntp ic c osc) = KernelName osc"
  "KernelOptionsAppend (rhel9_osc_ntp ic c osc) = KernelOptionsAppend osc"
  "Users (rhel9_osc_ntp ic c osc) = Users osc"
  "Groups (rhel9_osc_ntp ic c osc) = Groups osc"
  "Firewall (rhel9_osc_ntp ic c osc) = Firewall osc"
  by (simp_all add: rhel9_osc_ntp_def Let_def split: option.splits)

lemma osc_selinux_keeps:
  "KernelName (osc_selinux ic osc) = KernelName osc"
  "KernelOptionsAppend (osc_selinux ic osc) = KernelOptionsAppend osc"
  "Users (osc_selinux ic osc) = Users osc"
  "Groups (osc_selinux ic osc) = Groups osc"
  "Firewall (osc_selinux ic osc) = Firewall osc"
  by (simp_all add: osc_selinux_def Let_def)

lemma osc_oscap_keeps:
  assumes "osc_oscap ds t c osc = Inr osc'"
  shows "KernelName osc' = KernelName osc"
    and "KernelOptionsAppend osc' = KernelOptionsAppend osc"
    and "Users osc' = Users osc"
    and "Groups osc' = Groups osc"
    and "Firewall osc' = Firewall osc"
  using assms by (auto simp: osc_oscap_def Let_def split: option.splits if_splits)

lemma rhel9_osc_facts_keeps:
  "KernelName (rhel9_osc_facts t opts osc) = KernelName osc"
  "KernelOptionsAppend (rhel9_osc_facts t opts osc) = KernelOptionsAppend osc"
  "Users (rhel9_osc_facts t opts osc) = Users osc"
  "Groups (rhel9_osc_facts t opts osc) = Groups osc"
  "Firewall (rhel9_osc_facts t opts osc) = Firewall osc"
  by (simp_all add: rhel9_osc_facts_def Let_def split: option.splits)

lemma osc_directories_keeps:
  assumes "osc_directories ext c osc = Inr osc'"
  shows "KernelName osc' = KernelName osc"
    and "KernelOptionsAppend osc' = KernelOptionsAppend osc"
    and "Users osc' = Users osc"
    and "Groups osc' = Groups osc"
    and "Firewall osc' = Firewall osc"
  using assms by (auto simp: osc_directories_def Let_def split: sum.splits)

lemma osc_files_keeps:
  assumes "osc_files ext c osc = Inr osc'"
  shows "KernelName osc' = KernelName osc"
    and "KernelOptionsAppend osc' = KernelOptionsAppend osc"
    and "Users osc' = Users osc"
    and "Groups osc' = Groups osc"
    and "Firewall osc' = Firewall osc"
  using assms by (auto simp: osc_files_def Let_def split: sum.splits)

lemma osc_repos_keeps:
  assumes "osc_repos ext c osc = Inr osc'"
  shows "KernelName osc' = KernelName osc"
    and "KernelOptionsAppend osc' = KernelOptionsAppend osc"
    and "Users osc' = Users osc"
    and "Groups osc' = Groups osc"
    and "Firewall osc' = Firewall osc"
  using assms by (auto simp: osc_repos_def Let_def split: sum.splits prod.splits if_splits)

lemma fedora_osc_config_keeps:
  "KernelName (fedora_osc_config ic osc) = KernelName osc"
  "KernelOptionsAppend (fedora_osc_config ic osc) = KernelOptionsAppend osc"
  "Users (fedora_osc_config ic osc) = Users osc"
  "Groups (fedora_osc_config ic osc) = Groups osc"
  "Firewall (fedora_osc_config ic osc) = Firewall osc"
  by (simp_all add: fedora_osc_config_def Let_def)

lemma rhel9_osc_config_keeps:
  "KernelName (rhel9_osc_config ic opts osc) = KernelName osc"
  "KernelOptionsAppend (rhel9_osc_config ic opts osc) = KernelOptionsAppend osc"
  "Users (rhel9_osc_config ic opts osc) = Users osc"
  "Groups (rhel9_osc_config ic opts osc) = Groups osc"
  "Firewall (rhel9_osc_config ic opts osc) = Firewall osc"
  by (simp_all add: rhel9_osc_config_def Let_def)

lemmas osc_pure_keeps =
  osc_kernel_keeps osc_packages_keeps osc_users_keeps osc_services_keeps
  fedora_osc_firewall_keeps fedora_osc_locale_keeps rhel9_osc_locale_keeps
  fedora_osc_hostname_keeps rhel9_osc_hostname_keeps osc_timezone_keeps fedora_osc_ntp_keeps
  rhel9_osc_ntp_keeps osc_selinux_keeps rhel9_osc_facts_keeps fedora_osc_config_keeps
  rhel9_osc_config_keeps

text \<open>The fields set by the kernel block, the user block and the firewall blocks.\<close>

lemma osc_kernel_sets:
  "KernelName (osc_kernel t c osc) =
     (if bootable t \<or> rpmOstree t then kc_Name (GetKernel c) else KernelName osc)"
  "KernelOptionsAppend (osc_kernel t c osc) =
     (if bootable t \<or> rpmOstree t
      then filter (\<lambda>s. s \<noteq> []) [kernelOptions t, kc_Append (GetKernel c)]
      else KernelOptionsAppend osc)"
  by (simp_all add: osc_kernel_def Let_def)

lemma osc_users_sets:
  "Users (osc_users ext t c osc) =
     (if bootISO t then Users osc else UsersFromBP ext (GetUsers c))"
  "Groups (osc_users ext t c osc) =
     (if bootISO t then Groups osc else GroupsFromBP ext (GetGroups c))"
  by (simp_all add: osc_users_def)

lemma fedora_osc_firewall_sets:
  "Firewall (fedora_osc_firewall c osc) =
     (case GetFirewall c of None \<Rightarrow> Firewall osc | Some fw \<Rightarrow> Some (firewall_options fw))"
  by (simp add: fedora_osc_firewall_def split: option.splits)

lemma append_zones_Inr:
  "append_zones zones zs = Inr zones' \<Longrightarrow>
     zones' = zones @ map (\<lambda>z. \<lparr>fz_Name = the (fzc_Name z), fz_Sources = fzc_Sources z\<rparr>) zs
     \<and> list_all (\<lambda>z. fzc_Name z \<noteq> None) zs"
proof (induction zs arbitrary: zones)
  case Nil
  then show ?case by simp
next
  case (Cons z zs)
  from Cons.prems obtain name where
    name: "fzc_Name z = Some name" and
    rest: "append_zones (zones @ [\<lparr>fz_Name = name, fz_Sources = fzc_Sources z\<rparr>]) zs = Inr zones'"
    by (auto split: option.splits)
  from Cons.IH [OF rest] name show ?case by simp
qed

lemma append_zones_names:
  assumes "append_zones [] zs = Inr zones"
  shows "map fzc_Name zs = map (\<lambda>z. Some (fz_Name z)) zones"
    and "map fzc_Sources zs = map fz_Sources zones"
proof -
  from append_zones_Inr [OF assms] have
    eq: "zones = map (\<lambda>z. \<lparr>fz_Name = the (fzc_Name z), fz_Sources = fzc_Sources z\<rparr>) zs" and
    named: "list_all (\<lambda>z. fzc_Name z \<noteq> None) zs"
    by simp_all
  from named show "map fzc_Name zs = map (\<lambda>z. Some (fz_Name z)) zones"
    unfolding eq by (induction zs) auto
  show "map fzc_Sources zs = map fz_Sources zones"
    unfolding eq by (induction zs) auto
qed

lemma rhel9_osc_firewall_sets:
  assumes "rhel9_osc_firewall ic c osc = Inr osc'"
  shows "case GetFirewall c of
           None \<Rightarrow> Firewall osc' = ic_Firewall ic
         | Some fw \<Rightarrow>
             (\<exists>zones. Firewall osc' = Some ((firewall_options fw)\<lparr>fso_Zones := zones\<rparr>)
                \<and> map fzc_Name (fc_Zones fw) = map (\<lambda>z. Some (fz_Name z)) zones
                \<and> map fzc_Sources (fc_Zones fw) = map fz_Sources zones)"
proof (cases "GetFirewall c")
  case None
  with assms show ?thesis by (auto simp: rhel9_osc_firewall_def)
next
  case (Some fw)
  have empty: "fso_Zones (firewall_options fw) = []"
    by (simp add: firewall_options_def Let_def split: option.splits)
  from Some assms obtain zones where
    z: "append_zones [] (fc_Zones fw) = Inr zones" and
    o: "osc' = osc\<lparr>Firewall := Some ((firewall_options fw)\<lparr>fso_Zones := zones\<rparr>)\<rparr>"
    by (auto simp: rhel9_osc_firewall_def Let_def empty split: sum.splits)
  from o have "Firewall osc' = Some ((firewall_options fw)\<lparr>fso_Zones := zones\<rparr>)"
    by simp
  with append_zones_names [OF z] have
    "\<exists>zones. Firewall osc' = Some ((firewall_options fw)\<lparr>fso_Zones := zones\<rparr>)
       \<and> map fzc_Name (fc_Zones fw) = map (\<lambda>z. Some (fz_Name z)) zones
       \<and> map fzc_Sources (fc_Zones fw) = map fz_Sources zones"
    by blast
  with Some show ?thesis by simp
qed

text \<open>A successful run of either merge, seen through the five fields.\<close>

lemma fedora_osCustomizations_fields:
  assumes "fedora_osCustomizations ext t ps cs c = Inr osc"
  shows "KernelName osc = KernelName (osc_kernel t c OSCustomizations_zero)"
    and "KernelOptionsAppend osc = KernelOptionsAppend (osc_kernel t c OSCustomizations_zero)"
    and "Users osc = Users (osc_users ext t c OSCustomizations_zero)"
    and "Groups osc = Groups (osc_users ext t c OSCustomizations_zero)"
    and "Firewall osc = Firewall (fedora_osc_firewall c OSCustomizations_zero)"
proof -
  let ?ic = "getDefaultImageConfig t"
  let ?o1 = "osc_selinux ?ic (fedora_osc_ntp ?ic c (osc_timezone ?ic c (fedora_osc_hostname c
              (fedora_osc_locale ?ic c (fedora_osc_firewall c (osc_services ?ic
                (osc_users ext t c (osc_packages ps cs ?ic
                  (osc_kernel t c OSCustomizations_zero)))))))))"
  from assms obtain o2 o3 o4 o5 where
    s2: "osc_oscap (DefaultFedoraDatastream ext) t c ?o1 = Inr o2" and
    s3: "osc_directories ext c o2 = Inr o3" and
    s4: "osc_files ext c o3 = Inr o4" and
    s5: "osc_repos ext c o4 = Inr o5" and
    s6: "osc = fedora_osc_config ?ic o5"
    by (auto simp: fedora_osCustomizations_def Let_def bind_error_Inr_iff)
  note steps = osc_oscap_keeps [OF s2] osc_directories_keeps [OF s3] osc_files_keeps [OF s4]
    osc_repos_keeps [OF s5]
  show "KernelName osc = KernelName (osc_kernel t c OSCustomizations_zero)"
    and "KernelOptionsAppend osc = KernelOptionsAppend (osc_kernel t c OSCustomizations_zero)"
    by (simp_all add: s6 steps osc_pure_keeps)
  show "Users osc = Users (osc_users ext t c OSCustomizations_zero)"
    and "Groups osc = Groups (osc_users ext t c OSCustomizations_zero)"
    by (simp_all add: s6 steps osc_pure_keeps osc_users_sets)
  show "Firewall osc = Firewall (fedora_osc_firewall c OSCustomizations_zero)"
    by (simp add: s6 steps osc_pure_keeps fedora_osc_firewall_sets split: option.split)
qed

lemma rhel9_osCustomizations_fields:
  assumes "rhel9_osCustomizations ext t ps opts cs c = Inr osc"
  shows "KernelName osc = KernelName (osc_kernel t c OSCustomizations_zero)"
    and "KernelOptionsAppend osc = KernelOptionsAppend (osc_kernel t c OSCustomizations_zero)"
    and "Users osc = Users (osc_users ext t c OSCustomizations_zero)"
    and "Groups osc = Groups (osc_users ext t c OSCustomizations_zero)"
    and "\<exists>osc1. rhel9_osc_firewall (getDefaultImageConfig t) c OSCustomizations_zero = Inr osc1
           \<and> Firewall osc = Firewall osc1"
proof -
  let ?ic = "getDefaultImageConfig t"
  let ?o0 = "osc_services ?ic (osc_users ext t c (osc_packages ps cs ?ic
               (osc_kernel t c OSCustomizations_zero)))"
  from assms obtain o1 o2 o3 o4 o5 where
    s1: "rhel9_osc_firewall ?ic c ?o0 = Inr o1" and
    s2: "osc_oscap (DefaultRHEL9Datastream ext (isRHEL (distro t))) t c
           (osc_selinux ?ic (rhel9_osc_ntp ?ic c (osc_timezone ?ic c (rhel9_osc_hostname c
             (rhel9_osc_locale ?ic c o1))))) = Inr o2" and
    s3: "osc_directories ext c (rhel9_osc_facts t opts o2) = Inr o3" and
    s4: "osc_files ext c o3 = Inr o4" and
    s5: "osc_repos ext c (o4\<lparr>YUMRepos := ic_YUMRepos ?ic\<rparr>) = Inr o5" and
    s6: "osc = rhel9_osc_config ?ic opts o5"
    by (auto simp: rhel9_osCustomizations_def Let_def bind_error_Inr_iff)
  note steps = osc_oscap_keeps [OF s2] osc_directories_keeps [OF s3] osc_files_keeps [OF s4]
    osc_repos_keeps [OF s5]
  note fw = rhel9_osc_firewall_keeps [OF s1]
  show "KernelName osc = KernelName (osc_kernel t c OSCustomizations_zero)"
    and "KernelOptionsAppend osc = KernelOptionsAppend (osc_kernel t c OSCustomizations_zero)"
    by (simp_all add: s6 steps fw osc_pure_keeps)
  show "Users osc = Users (osc_users ext t c OSCustomizations_zero)"
    and "Groups osc = Groups (osc_users ext t c OSCustomizations_zero)"
    by (simp_all add: s6 steps fw osc_pure_keeps osc_users_sets)
  have same: "Firewall osc = Firewall o1"
    by (simp add: s6 steps osc_pure_keeps)
  from s1 have "\<exists>osc1. rhel9_osc_firewall ?ic c OSCustomizations_zero = Inr osc1
                  \<and> Firewall o1 = Firewall osc1"
    by (auto simp: rhel9_osc_firewall_def Let_def split: option.splits sum.splits)
  with same show "\<exists>osc1. rhel9_osc_firewall ?ic c OSCustomizations_zero = Inr osc1
                    \<and> Firewall osc = Firewall osc1"
    by simp
qed

text \<open>What the two image installers take from the merge and from the blueprint.\<close>

lemma fedora_imageInstallerImage_Inr:
  assumes "fedora_imageInstallerImage ext workload t c packageSets containers = Inr img"
  shows "fedora_osCustomizations ext t (packageSet_at packageSets (osPkgsKey ext)) containers c
           = Inr (ati_OSCustomizations img)"
    and "ati_Users img = UsersFromBP ext (GetUsers c)"
    and "ati_Groups img = GroupsFromBP ext (GetGroups c)"
    and "''org.fedoraproject.Anaconda.Modules.Users'' \<in> set (ati_AdditionalAnacondaModules img)"
  using assms
  by (auto simp: fedora_imageInstallerImage_def Let_def bind_error_Inr_iff NewAnacondaTarInstaller_def
      split: if_splits)

lemma rhel9_imageInstallerImage_Inr:
  assumes "rhel9_imageInstallerImage ext workload t c options packageSets containers = Inr img"
  shows "rhel9_osCustomizations ext t (packageSet_at packageSets (osPkgsKey ext)) options containers c
           = Inr (ati_OSCustomizations img)"
    and "ati_Users img = UsersFromBP ext (GetUsers c)"
    and "ati_Groups img = GroupsFromBP ext (GetGroups c)"
    and "''org.fedoraproject.Anaconda.Modules.Users'' \<in> set (ati_AdditionalAnacondaModules img)"
  using assms
  by (auto simp: rhel9_imageInstallerImage_def Let_def bind_error_Inr_iff)

text \<open>The definitions to unfold when a merge or an image function runs on an example.\<close>

lemmas example_defs = example_externals_def example_imageConfig_def example_distro_def
  example_disk_def example_installer_def example_archive_def example_customizations_def
  example_no_firewall_def example_image_options_def PackageSet_zero_def packageSet_at_def
  example_ostree_installer_def example_no_users_def example_ostree_options_def
  example_ostree_def example_live_def example_edge_def

lemmas osc_defs = fedora_osCustomizations_def rhel9_osCustomizations_def
  OSCustomizations_zero_def osc_kernel_def osc_packages_def osc_users_def osc_services_def
  firewall_options_def fedora_osc_firewall_def rhel9_osc_firewall_def fedora_osc_locale_def
  rhel9_osc_locale_def fedora_osc_hostname_def rhel9_osc_hostname_def osc_timezone_def
  append_servers_def fedora_osc_ntp_def rhel9_osc_ntp_def osc_selinux_def osc_oscap_def
  rhel9_osc_facts_def osc_directories_def osc_files_def osc_repos_def fedora_osc_config_def
  rhel9_osc_config_def bind_error_def

lemmas version_defs = VersionLessThan_def parse_version_def rolling_token_def parse_decimal_def
  is_digit_def digit_value_def

text \<open>The enabled services: set by the services block and kept by every other one.\<close>

lemma osc_pure_keeps_services:
  "EnabledServices (osc_kernel t c osc) = EnabledServices osc"
  "EnabledServices (osc_packages ps cs ic osc) = EnabledServices osc"
  "EnabledServices (osc_users ext t c osc) = EnabledServices osc"
  "EnabledServices (osc_services ic osc) = ic_EnabledServices ic"
  "EnabledServices (rhel9_osc_locale ic c osc) = EnabledServices osc"
  "EnabledServices (rhel9_osc_hostname c osc) = EnabledServices osc"
  "EnabledServices (osc_timezone ic c osc) = EnabledServices osc"
  "EnabledServices (rhel9_osc_ntp ic c osc) = EnabledServices osc"
  "EnabledServices (osc_selinux ic osc) = EnabledServices osc"
  "EnabledServices (rhel9_osc_facts t opts osc) = EnabledServices osc"
  "EnabledServices (rhel9_osc_config ic opts osc) = EnabledServices osc"
  by (simp_all add: osc_kernel_def osc_packages_def osc_users_def osc_services_def
      rhel9_osc_locale_def rhel9_osc_hostname_def osc_timezone_def rhel9_osc_ntp_def
      osc_selinux_def rhel9_osc_facts_def rhel9_osc_config_def Let_def split: option.splits)

lemma osc_fallible_keeps_services:
  "rhel9_osc_firewall ic c osc = Inr osc' \<Longrightarrow> EnabledServices osc' = EnabledServices osc"
  "osc_oscap ds t c osc = Inr osc' \<Longrightarrow> EnabledServices osc' = EnabledServices osc"
  "osc_directories ext c osc = Inr osc' \<Longrightarrow> EnabledServices osc' = EnabledServices osc"
  "osc_files ext c osc = Inr osc' \<Longrightarrow> EnabledServices osc' = EnabledServices osc"
  "osc_repos ext c osc = Inr osc' \<Longrightarrow> EnabledServices osc' = EnabledServices osc"
  by (auto simp: rhel9_osc_firewall_def osc_oscap_def osc_directories_def osc_files_def
      osc_repos_def Let_def split: option.splits sum.splits prod.splits if_splits)

lemma rhel9_osCustomizations_services:
  assumes "rhel9_osCustomizations ext t ps opts cs c = Inr osc"
  shows "EnabledServices osc = ic_EnabledServices (getDefaultImageConfig t)"
proof -
  let ?ic = "getDefaultImageConfig t"
  let ?o0 = "osc_services ?ic (osc_users ext t c (osc_packages ps cs ?ic
               (osc_kernel t c OSCustomizations_zero)))"
  from assms obtain o1 o2 o3 o4 o5 where
    s1: "rhel9_osc_firewall ?ic c ?o0 = Inr o1" and
    s2: "osc_oscap (DefaultRHEL9Datastream ext (isRHEL (distro t))) t c
           (osc_selinux ?ic (rhel9_osc_ntp ?ic c (osc_timezone ?ic c (rhel9_osc_hostname c
             (rhel9_osc_locale ?ic c o1))))) = Inr o2" and
    s3: "osc_directories ext c (rhel9_osc_facts t opts o2) = Inr o3" and
    s4: "osc_files ext c o3 = Inr o4" and
    s5: "osc_repos ext c (o4\<lparr>YUMRepos := ic_YUMRepos ?ic\<rparr>) = Inr o5" and
    s6: "osc = rhel9_osc_config ?ic opts o5"
    by (auto simp: rhel9_osCustomizations_def Let_def bind_error_Inr_iff)
  show ?thesis
    by (simp add: s6 osc_fallible_keeps_services(1) [OF s1] osc_fallible_keeps_services(2) [OF s2]
        osc_fallible_keeps_services(3) [OF s3] osc_fallible_keeps_services(4) [OF s4]
        osc_fallible_keeps_services(5) [OF s5] osc_pure_keeps_services)
qed

text \<open>The order of the versions.\<close>

lemma components_less_irrefl: "\<not> components_less as as"
  by (induction as) auto

lemma components_less_trans:
  "components_less as bs \<Longrightarrow> components_less bs cs \<Longrightarrow> components_less as cs"
proof (induction as bs arbitrary: cs rule: components_less.induct)
  case 1
  then show ?case by simp
next
  case (2 b bs)
  then show ?case by (cases cs) auto
next
  case (3 a as)
  then show ?case by simp
next
  case (4 a as b bs)
  then show ?case by (cases cs) auto
qed

lemma components_less_total: "components_less as bs \<or> as = bs \<or> components_less bs as"
  by (induction as bs rule: components_less.induct) auto

lemma version_less_irrefl: "\<not> version_less a a"
  by (cases a) (simp_all add: components_less_irrefl)

lemma version_less_trans: "version_less a b \<Longrightarrow> version_less b c \<Longrightarrow> version_less a c"
  by (cases a; cases b; cases c) (auto intro: components_less_trans)

lemma version_less_total: "version_less a b \<or> a = b \<or> version_less b a"
  using components_less_total by (cases a; cases b) auto

section \<open>OSTree commit derivation\<close>

text \<open>
  C4. \<^verbatim>\<open>makeOSTreePayloadCommit\<close> (both packages) returns the error
  "ostree commit URL required" exactly when the options are nil or their URL is empty,
  whatever the default ref and the image ref are; otherwise it returns a source spec
  with the URL and the RHSM flag of the options, whose ref is the image ref of the
  options when that is not empty and the default ref when it is.
\<close>

theorem makeOSTreePayloadCommit_url_required:
  "((fedora_makeOSTreePayloadCommit options defaultRef = Inl (Errorf ''ostree commit URL required''))
      = (options = None \<or> (\<exists>opts. options = Some opts \<and> URL opts = [])))
   \<and> ((rhel9_makeOSTreePayloadCommit options defaultRef = Inl (Errorf ''ostree commit URL required''))
      = (options = None \<or> (\<exists>opts. options = Some opts \<and> URL opts = [])))
   \<and> (\<forall>opts. options = Some opts \<and> URL opts \<noteq> [] \<longrightarrow>
         fedora_makeOSTreePayloadCommit options defaultRef =
           Inr \<lparr>srcURL = URL opts,
                srcRef = (if ImageRef opts \<noteq> [] then ImageRef opts else defaultRef),
                srcRHSM = RHSM opts\<rparr>
         \<and> rhel9_makeOSTreePayloadCommit options defaultRef =
           Inr \<lparr>srcURL = URL opts,
                srcRef = (if ImageRef opts \<noteq> [] then ImageRef opts else defaultRef),
                srcRHSM = RHSM opts\<rparr>)"
  by (cases options)
    (simp_all add: fedora_makeOSTreePayloadCommit_def rhel9_makeOSTreePayloadCommit_def Let_def)

theorem makeOSTreePayloadCommit_url_required_witness:
  "fedora_makeOSTreePayloadCommit (Some example_ostree) ''fedora/38/x86_64/iot'' =
     Inr \<lparr>srcURL = ''https://example.org/repo'', srcRef = ''fedora/38/x86_64/iot'', srcRHSM = True\<rparr>
   \<and> rhel9_makeOSTreePayloadCommit (Some example_ostree_ref) ''rhel/9/x86_64/edge'' =
     Inr \<lparr>srcURL = ''https://example.org/repo'', srcRef = ''test/edge'', srcRHSM = True\<rparr>"
  using makeOSTreePayloadCommit_url_required [of "Some example_ostree" "''fedora/38/x86_64/iot''"]
    makeOSTreePayloadCommit_url_required [of "Some example_ostree_ref" "''rhel/9/x86_64/edge''"]
  by (simp add: example_ostree_def example_ostree_ref_def)

text \<open>
  C5. \<^verbatim>\<open>makeOSTreeParentCommit\<close> (both packages) always returns a pair, without an
  error. With nil options there is no parent and the ref is the default ref. With
  options, the ref is their image ref when that is not empty and the default ref
  otherwise; there is no parent when the URL is empty; and with a URL the parent has the
  URL and the RHSM flag of the options and, as its ref, the parent ref of the options,
  or the returned ref when no parent ref is given.
\<close>

theorem makeOSTreeParentCommit_parent_and_ref:
  "fedora_makeOSTreeParentCommit None defaultRef = (None, defaultRef)
   \<and> snd (fedora_makeOSTreeParentCommit (Some opts) defaultRef) =
        (if ImageRef opts \<noteq> [] then ImageRef opts else defaultRef)
   \<and> (URL opts = [] \<longrightarrow> fst (fedora_makeOSTreeParentCommit (Some opts) defaultRef) = None)
   \<and> (URL opts \<noteq> [] \<longrightarrow>
        fst (fedora_makeOSTreeParentCommit (Some opts) defaultRef) =
          Some \<lparr>srcURL = URL opts,
                srcRef = (if ParentRef opts = []
                          then snd (fedora_makeOSTreeParentCommit (Some opts) defaultRef)
                          else ParentRef opts),
                srcRHSM = RHSM opts\<rparr>)
   \<and> rhel9_makeOSTreeParentCommit options defaultRef =
        fedora_makeOSTreeParentCommit options defaultRef"
  by (cases options)
    (simp_all add: fedora_makeOSTreeParentCommit_def rhel9_makeOSTreeParentCommit_def Let_def)

theorem makeOSTreeParentCommit_parent_and_ref_witness:
  "fedora_makeOSTreeParentCommit (Some example_ostree_ref) ''fedora/38/x86_64/iot'' =
     (Some \<lparr>srcURL = ''https://example.org/repo'', srcRef = ''test/edge'', srcRHSM = True\<rparr>,
      ''test/edge'')
   \<and> fedora_makeOSTreeParentCommit (Some (example_ostree\<lparr>URL := []\<rparr>)) ''fedora/38/x86_64/iot'' =
     (None, ''fedora/38/x86_64/iot'')"
  using makeOSTreeParentCommit_parent_and_ref
          [of "''fedora/38/x86_64/iot''" example_ostree_ref "Some example_ostree_ref"]
    makeOSTreeParentCommit_parent_and_ref
          [of "''fedora/38/x86_64/iot''" "example_ostree\<lparr>URL := []\<rparr>" None]
  by (simp add: example_ostree_def example_ostree_ref_def prod_eq_iff)

section \<open>The customization merge\<close>

text \<open>
  C1, as amended. In the rhel9 merge, a firewall customization of the user replaces
  the firewall of the image configuration as a whole: ports, enabled and disabled
  services and zones of the merged firewall are the user's, and nothing of the default
  is kept; without a firewall customization the merged firewall is the firewall of the
  image configuration as it is. In the fedora merge, the merged firewall is made of the
  user's ports and enabled and disabled services alone: it has no zones, whatever zones
  the user gave, and nothing of the image configuration; without a firewall
  customization the merged firewall is unset. The firewall of the image configuration
  is not consulted there at all.
\<close>

theorem firewall_replaced_or_default:
  "(rhel9_osCustomizations ext t ps opts cs c = Inr osc \<longrightarrow>
      (case GetFirewall c of
         None \<Rightarrow> Firewall osc = ic_Firewall (getDefaultImageConfig t)
       | Some fw \<Rightarrow>
           (\<exists>merged. Firewall osc = Some merged
              \<and> fso_Ports merged = fc_Ports fw
              \<and> fso_EnabledServices merged =
                   (case fc_Services fw of None \<Rightarrow> [] | Some sv \<Rightarrow> fsc_Enabled sv)
              \<and> fso_DisabledServices merged =
                   (case fc_Services fw of None \<Rightarrow> [] | Some sv \<Rightarrow> fsc_Disabled sv)
              \<and> map (\<lambda>z. Some (fz_Name z)) (fso_Zones merged) = map fzc_Name (fc_Zones fw)
              \<and> map fz_Sources (fso_Zones merged) = map fzc_Sources (fc_Zones fw))))
   \<and> (fedora_osCustomizations ext t ps cs c = Inr osc' \<longrightarrow>
        Firewall osc' =
          (case GetFirewall c of
             None \<Rightarrow> None
           | Some fw \<Rightarrow>
               Some \<lparr>fso_Ports = fc_Ports fw,
                     fso_EnabledServices =
                       (case fc_Services fw of None \<Rightarrow> [] | Some sv \<Rightarrow> fsc_Enabled sv),
                     fso_DisabledServices =
                       (case fc_Services fw of None \<Rightarrow> [] | Some sv \<Rightarrow> fsc_Disabled sv),
                     fso_Zones = []\<rparr>))"
proof (intro conjI impI)
  assume run: "rhel9_osCustomizations ext t ps opts cs c = Inr osc"
  from rhel9_osCustomizations_fields(5) [OF run] obtain osc1 where
    fw: "rhel9_osc_firewall (getDefaultImageConfig t) c OSCustomizations_zero = Inr osc1" and
    same: "Firewall osc = Firewall osc1"
    by blast
  from rhel9_osc_firewall_sets [OF fw] same
  show "case GetFirewall c of
          None \<Rightarrow> Firewall osc = ic_Firewall (getDefaultImageConfig t)
        | Some fw \<Rightarrow>
            (\<exists>merged. Firewall osc = Some merged
               \<and> fso_Ports merged = fc_Ports fw
               \<and> fso_EnabledServices merged =
                    (case fc_Services fw of None \<Rightarrow> [] | Some sv \<Rightarrow> fsc_Enabled sv)
               \<and> fso_DisabledServices merged =
                    (case fc_Services fw of None \<Rightarrow> [] | Some sv \<Rightarrow> fsc_Disabled sv)
               \<and> map (\<lambda>z. Some (fz_Name z)) (fso_Zones merged) = map fzc_Name (fc_Zones fw)
               \<and> map fz_Sources (fso_Zones merged) = map fzc_Sources (fc_Zones fw))"
    by (auto simp: firewall_options_def Let_def split: option.splits)
next
  assume run: "fedora_osCustomizations ext t ps cs c = Inr osc'"
  from fedora_osCustomizations_fields(5) [OF run]
  show "Firewall osc' =
          (case GetFirewall c of
             None \<Rightarrow> None
           | Some fw \<Rightarrow>
               Some \<lparr>fso_Ports = fc_Ports fw,
                     fso_EnabledServices =
                       (case fc_Services fw of None \<Rightarrow> [] | Some sv \<Rightarrow> fsc_Enabled sv),
                     fso_DisabledServices =
                       (case fc_Services fw of None \<Rightarrow> [] | Some sv \<Rightarrow> fsc_Disabled sv),
                     fso_Zones = []\<rparr>)"
    by (simp add: fedora_osc_firewall_sets firewall_options_def Let_def OSCustomizations_zero_def
        split: option.splits)
qed

text \<open>
  The default enables \<^verbatim>\<open>ssh\<close> and the user enables \<^verbatim>\<open>http\<close> and names the zone
  \<^verbatim>\<open>trusted\<close>: the merged firewall of rhel9 has \<^verbatim>\<open>http\<close> alone and the zone, and
  without a user firewall it is the default; the merged firewall of fedora has
  \<^verbatim>\<open>http\<close> alone and no zone, and without a user firewall it is unset.
\<close>

theorem firewall_replaced_or_default_witness:
  "(\<exists>osc merged.
      rhel9_osCustomizations example_externals example_disk PackageSet_zero
        example_image_options [] example_customizations = Inr osc
      \<and> Firewall osc = Some merged \<and> fso_EnabledServices merged = [''http'']
      \<and> fso_Ports merged = [''8080:tcp''] \<and> map fz_Name (fso_Zones merged) = [''trusted''])
   \<and> (\<exists>osc.
      rhel9_osCustomizations example_externals example_disk PackageSet_zero
        example_image_options [] example_no_firewall = Inr osc
      \<and> Firewall osc = Some \<lparr>fso_Ports = [], fso_EnabledServices = [''ssh''],
                              fso_DisabledServices = [], fso_Zones = []\<rparr>)
   \<and> (\<exists>osc.
      fedora_osCustomizations example_externals example_disk PackageSet_zero []
        example_customizations = Inr osc
      \<and> Firewall osc = Some \<lparr>fso_Ports = [''8080:tcp''], fso_EnabledServices = [''http''],
                              fso_DisabledServices = [], fso_Zones = []\<rparr>)
   \<and> (\<exists>osc.
      fedora_osCustomizations example_externals example_disk PackageSet_zero []
        example_no_firewall = Inr osc
      \<and> Firewall osc = None)"
proof -
  obtain osc where run:
    "rhel9_osCustomizations example_externals example_disk PackageSet_zero
       example_image_options [] example_customizations = Inr osc"
    by (simp add: osc_defs example_defs)
  obtain osc0 where run0:
    "rhel9_osCustomizations example_externals example_disk PackageSet_zero
       example_image_options [] example_no_firewall = Inr osc0"
    by (simp add: osc_defs example_defs)
  obtain osc1 where run1:
    "fedora_osCustomizations example_externals example_disk PackageSet_zero []
       example_customizations = Inr osc1"
    by (simp add: osc_defs example_defs)
  obtain osc2 where run2:
    "fedora_osCustomizations example_externals example_disk PackageSet_zero []
       example_no_firewall = Inr osc2"
    by (simp add: osc_defs example_defs)
  from firewall_replaced_or_default [THEN conjunct2, rule_format, OF run2]
  have unset: "Firewall osc2 = None"
    by (simp add: example_no_firewall_def example_customizations_def)
  from firewall_replaced_or_default [THEN conjunct1, rule_format, OF run]
  obtain merged where merged: "Firewall osc = Some merged"
    "fso_EnabledServices merged = [''http'']" "fso_Ports merged = [''8080:tcp'']"
    "map fz_Name (fso_Zones merged) = [''trusted'']"
    by (auto simp: example_customizations_def map_eq_Cons_conv)
  from firewall_replaced_or_default [THEN conjunct1, rule_format, OF run0]
  have default: "Firewall osc0 = Some \<lparr>fso_Ports = [], fso_EnabledServices = [''ssh''],
                                       fso_DisabledServices = [], fso_Zones = []\<rparr>"
    by (simp add: example_no_firewall_def example_customizations_def example_disk_def
        example_imageConfig_def)
  from firewall_replaced_or_default [THEN conjunct2, rule_format, OF run1]
  have merged1: "Firewall osc1 = Some \<lparr>fso_Ports = [''8080:tcp''],
                                        fso_EnabledServices = [''http''],
                                        fso_DisabledServices = [], fso_Zones = []\<rparr>"
    by (simp add: example_customizations_def)
  show ?thesis
  proof (intro conjI)
    show "\<exists>osc merged.
            rhel9_osCustomizations example_externals example_disk PackageSet_zero
              example_image_options [] example_customizations = Inr osc
            \<and> Firewall osc = Some merged \<and> fso_EnabledServices merged = [''http'']
            \<and> fso_Ports merged = [''8080:tcp''] \<and> map fz_Name (fso_Zones merged) = [''trusted'']"
      by (rule exI [of _ osc], rule exI [of _ merged]) (simp only: run merged simp_thms)
    show "\<exists>osc.
            rhel9_osCustomizations example_externals example_disk PackageSet_zero
              example_image_options [] example_no_firewall = Inr osc
            \<and> Firewall osc = Some \<lparr>fso_Ports = [], fso_EnabledServices = [''ssh''],
                                    fso_DisabledServices = [], fso_Zones = []\<rparr>"
      by (rule exI [of _ osc0]) (simp only: run0 default simp_thms)
    show "\<exists>osc.
            fedora_osCustomizations example_externals example_disk PackageSet_zero []
              example_customizations = Inr osc
            \<and> Firewall osc = Some \<lparr>fso_Ports = [''8080:tcp''], fso_EnabledServices = [''http''],
                                    fso_DisabledServices = [], fso_Zones = []\<rparr>"
      by (rule exI [of _ osc1]) (simp only: run1 merged1 simp_thms)
    show "\<exists>osc.
            fedora_osCustomizations example_externals example_disk PackageSet_zero []
              example_no_firewall = Inr osc
            \<and> Firewall osc = None"
      by (rule exI [of _ osc2]) (simp only: run2 unset simp_thms)
  qed
qed

text \<open>
  The claim as it stands fails on the fedora merge, twice. With a default that enables
  \<^verbatim>\<open>ssh\<close> and no firewall customization, the merged firewall is unset and not the
  default. With a firewall customization that names the zone \<^verbatim>\<open>trusted\<close>, the merged
  firewall has no zone, where the rhel9 merge of the same customizations has it.
\<close>

theorem fedora_firewall_default_counterexample:
  "\<not> isl (fedora_osCustomizations example_externals example_disk PackageSet_zero []
            example_no_firewall)
   \<and> GetFirewall example_no_firewall = None
   \<and> ic_Firewall (getDefaultImageConfig example_disk)
       = Some \<lparr>fso_Ports = [], fso_EnabledServices = [''ssh''],
               fso_DisabledServices = [], fso_Zones = []\<rparr>
   \<and> Firewall (projr (fedora_osCustomizations example_externals example_disk PackageSet_zero []
                        example_no_firewall))
       = None
   \<and> \<not> isl (fedora_osCustomizations example_externals example_disk PackageSet_zero []
              example_customizations)
   \<and> map_option (\<lambda>fw. map fzc_Name (fc_Zones fw)) (GetFirewall example_customizations)
       = Some [Some ''trusted'']
   \<and> map_option fso_Zones
        (Firewall (projr (fedora_osCustomizations example_externals example_disk
                            PackageSet_zero [] example_customizations)))
       = Some []
   \<and> map_option (\<lambda>merged. map fz_Name (fso_Zones merged))
        (Firewall (projr (rhel9_osCustomizations example_externals example_disk
                            PackageSet_zero example_image_options [] example_customizations)))
       = Some [''trusted'']"
  by (simp add: osc_defs example_defs)

text \<open>
  C2. For an image type that is bootable or rpm-ostree, in both merges, the kernel
  options of the result are the kernel options of the image type followed by the kernel
  append of the user, each left out when empty; joined with spaces they read default,
  space, user. The user's value never takes the place of the default.
\<close>

theorem kernel_options_default_then_user:
  assumes "bootable t \<or> rpmOstree t"
  shows "(fedora_osCustomizations ext t ps cs c = Inr osc \<longrightarrow>
            KernelOptionsAppend osc =
              filter (\<lambda>s. s \<noteq> []) [kernelOptions t, kc_Append (GetKernel c)])
       \<and> (rhel9_osCustomizations ext t ps opts cs c = Inr osc' \<longrightarrow>
            KernelOptionsAppend osc' =
              filter (\<lambda>s. s \<noteq> []) [kernelOptions t, kc_Append (GetKernel c)])
       \<and> strings_Join (filter (\<lambda>s. s \<noteq> []) [kernelOptions t, kc_Append (GetKernel c)]) '' '' =
            (if kernelOptions t = [] then kc_Append (GetKernel c)
             else if kc_Append (GetKernel c) = [] then kernelOptions t
             else kernelOptions t @ '' '' @ kc_Append (GetKernel c))"
  using assms
  by (auto simp: fedora_osCustomizations_fields(2) rhel9_osCustomizations_fields(2)
      osc_kernel_sets)

theorem kernel_options_default_then_user_witness:
  "(\<exists>osc. fedora_osCustomizations example_externals example_disk PackageSet_zero []
             example_customizations = Inr osc
      \<and> KernelOptionsAppend osc = [''quiet'', ''debug'']
      \<and> strings_Join (KernelOptionsAppend osc) '' '' = ''quiet debug'')
   \<and> (\<exists>osc. rhel9_osCustomizations example_externals (example_edge ''9.2'') PackageSet_zero
             example_image_options [] example_customizations = Inr osc
      \<and> KernelOptionsAppend osc = [''quiet'', ''debug'']
      \<and> strings_Join (KernelOptionsAppend osc) '' '' = ''quiet debug'')"
proof -
  obtain osc where run:
    "fedora_osCustomizations example_externals example_disk PackageSet_zero []
       example_customizations = Inr osc"
    by (simp add: osc_defs example_defs)
  obtain osc1 where run1:
    "rhel9_osCustomizations example_externals (example_edge ''9.2'') PackageSet_zero
       example_image_options [] example_customizations = Inr osc1"
    by (simp add: osc_defs example_defs)
  have boot: "bootable example_disk \<or> rpmOstree example_disk"
    by (simp add: example_disk_def)
  have ostree: "bootable (example_edge ''9.2'') \<or> rpmOstree (example_edge ''9.2'')"
    by (simp add: example_edge_def)
  from kernel_options_default_then_user [OF boot, THEN conjunct1, rule_format, OF run]
  have opts: "KernelOptionsAppend osc = [''quiet'', ''debug'']"
    by (simp add: example_disk_def example_customizations_def)
  from kernel_options_default_then_user [OF ostree, THEN conjunct2, THEN conjunct1, rule_format,
      OF run1]
  have opts1: "KernelOptionsAppend osc1 = [''quiet'', ''debug'']"
    by (simp add: example_edge_def example_disk_def example_customizations_def)
  show ?thesis
  proof (intro conjI)
    show "\<exists>osc. fedora_osCustomizations example_externals example_disk PackageSet_zero []
                  example_customizations = Inr osc
            \<and> KernelOptionsAppend osc = [''quiet'', ''debug'']
            \<and> strings_Join (KernelOptionsAppend osc) '' '' = ''quiet debug''"
      using run opts by (intro exI [of _ osc]) simp
    show "\<exists>osc. rhel9_osCustomizations example_externals (example_edge ''9.2'') PackageSet_zero
                  example_image_options [] example_customizations = Inr osc
            \<and> KernelOptionsAppend osc = [''quiet'', ''debug'']
            \<and> strings_Join (KernelOptionsAppend osc) '' '' = ''quiet debug''"
      using run1 opts1 by (intro exI [of _ osc1]) simp
  qed
qed

text \<open>
  C3. For an image type with the \<^verbatim>\<open>bootISO\<close> flag, the result of either merge has no
  users and no groups, whatever the blueprint holds; the image installers of both
  packages hand the users and groups of the blueprint to the installer image itself,
  beside such OS customizations.
\<close>

theorem installer_payload_has_no_users:
  assumes "bootISO t"
  shows "(fedora_osCustomizations ext t ps cs c = Inr osc \<longrightarrow> Users osc = [] \<and> Groups osc = [])
       \<and> (rhel9_osCustomizations ext t ps opts cs c = Inr osc' \<longrightarrow>
            Users osc' = [] \<and> Groups osc' = [])
       \<and> (fedora_imageInstallerImage ext workload t c packageSets cs = Inr img \<longrightarrow>
            Users (ati_OSCustomizations img) = [] \<and> Groups (ati_OSCustomizations img) = []
            \<and> ati_Users img = UsersFromBP ext (GetUsers c)
            \<and> ati_Groups img = GroupsFromBP ext (GetGroups c))
       \<and> (rhel9_imageInstallerImage ext workload t c opts packageSets cs = Inr img' \<longrightarrow>
            Users (ati_OSCustomizations img') = [] \<and> Groups (ati_OSCustomizations img') = []
            \<and> ati_Users img' = UsersFromBP ext (GetUsers c)
            \<and> ati_Groups img' = GroupsFromBP ext (GetGroups c))"
proof -
  have zero: "Users (osc_users ext t c OSCustomizations_zero) = []"
    "Groups (osc_users ext t c OSCustomizations_zero) = []"
    using assms by (simp_all add: osc_users_sets OSCustomizations_zero_def)
  have fedora: "Users x = [] \<and> Groups x = []"
    if "fedora_osCustomizations ext t ps' cs c = Inr x" for x ps'
    using fedora_osCustomizations_fields(3,4) [OF that] zero by simp
  have rhel9: "Users x = [] \<and> Groups x = []"
    if "rhel9_osCustomizations ext t ps' opts cs c = Inr x" for x ps'
    using rhel9_osCustomizations_fields(3,4) [OF that] zero by simp
  show ?thesis
  proof (intro conjI impI)
    assume "fedora_osCustomizations ext t ps cs c = Inr osc"
    from fedora [OF this] show "Users osc = []" and "Groups osc = []" by simp_all
  next
    assume "rhel9_osCustomizations ext t ps opts cs c = Inr osc'"
    from rhel9 [OF this] show "Users osc' = []" and "Groups osc' = []" by simp_all
  next
    assume run: "fedora_imageInstallerImage ext workload t c packageSets cs = Inr img"
    from fedora [OF fedora_imageInstallerImage_Inr(1) [OF run]]
    show "Users (ati_OSCustomizations img) = []" and "Groups (ati_OSCustomizations img) = []"
      by simp_all
    from fedora_imageInstallerImage_Inr(2,3) [OF run]
    show "ati_Users img = UsersFromBP ext (GetUsers c)"
      and "ati_Groups img = GroupsFromBP ext (GetGroups c)"
      by simp_all
  next
    assume run: "rhel9_imageInstallerImage ext workload t c opts packageSets cs = Inr img'"
    from rhel9 [OF rhel9_imageInstallerImage_Inr(1) [OF run]]
    show "Users (ati_OSCustomizations img') = []" and "Groups (ati_OSCustomizations img') = []"
      by simp_all
    from rhel9_imageInstallerImage_Inr(2,3) [OF run]
    show "ati_Users img' = UsersFromBP ext (GetUsers c)"
      and "ati_Groups img' = GroupsFromBP ext (GetGroups c)"
      by simp_all
  qed
qed

theorem installer_payload_has_no_users_witness:
  "(\<exists>img. fedora_imageInstallerImage example_externals None example_installer
             example_customizations Map.empty [] = Inr img
      \<and> Users (ati_OSCustomizations img) = [] \<and> Groups (ati_OSCustomizations img) = []
      \<and> ati_Users img = [User ''alice''] \<and> ati_Groups img = [Group ''wheel''])
   \<and> (\<exists>img. rhel9_imageInstallerImage example_externals None example_installer
             example_customizations example_image_options Map.empty [] = Inr img
      \<and> Users (ati_OSCustomizations img) = [] \<and> Groups (ati_OSCustomizations img) = []
      \<and> ati_Users img = [User ''alice''] \<and> ati_Groups img = [Group ''wheel''])"
proof -
  obtain img where run:
    "fedora_imageInstallerImage example_externals None example_installer
       example_customizations Map.empty [] = Inr img"
    by (simp add: fedora_imageInstallerImage_def NewAnacondaTarInstaller_def HasPrefix_def
        version_defs osc_defs example_defs)
  obtain img1 where run1:
    "rhel9_imageInstallerImage example_externals None example_installer
       example_customizations example_image_options Map.empty [] = Inr img1"
    by (simp add: rhel9_imageInstallerImage_def NewAnacondaTarInstaller_def osc_defs example_defs)
  have iso: "bootISO example_installer"
    by (simp add: example_installer_def)
  from installer_payload_has_no_users [OF iso, THEN conjunct2, THEN conjunct2, THEN conjunct1,
      rule_format, OF run]
  have staged: "Users (ati_OSCustomizations img) = [] \<and> Groups (ati_OSCustomizations img) = []
          \<and> ati_Users img = [User ''alice''] \<and> ati_Groups img = [Group ''wheel'']"
    by (simp add: example_customizations_def example_externals_def)
  from installer_payload_has_no_users [OF iso, THEN conjunct2, THEN conjunct2, THEN conjunct2,
      rule_format, OF run1]
  have staged1: "Users (ati_OSCustomizations img1) = [] \<and> Groups (ati_OSCustomizations img1) = []
          \<and> ati_Users img1 = [User ''alice''] \<and> ati_Groups img1 = [Group ''wheel'']"
    by (simp add: example_customizations_def example_externals_def)
  from run staged run1 staged1 show ?thesis by blast
qed

text \<open>
  C10. For an image type that is neither bootable nor rpm-ostree, both merges leave the
  kernel name and the kernel options of the result empty, whatever kernel name and
  kernel append the user gave.
\<close>

theorem kernel_dropped_when_not_bootable:
  assumes "\<not> bootable t" and "\<not> rpmOstree t"
  shows "(fedora_osCustomizations ext t ps cs c = Inr osc \<longrightarrow>
            KernelName osc = [] \<and> KernelOptionsAppend osc = [])
       \<and> (rhel9_osCustomizations ext t ps opts cs c = Inr osc' \<longrightarrow>
            KernelName osc' = [] \<and> KernelOptionsAppend osc' = [])"
  using assms
  by (auto simp: fedora_osCustomizations_fields(1,2) rhel9_osCustomizations_fields(1,2)
      osc_kernel_sets OSCustomizations_zero_def)

theorem kernel_dropped_when_not_bootable_witness:
  "kc_Name (GetKernel example_customizations) = ''kernel''
   \<and> kc_Append (GetKernel example_customizations) = ''debug''
   \<and> (\<exists>osc. rhel9_osCustomizations example_externals example_archive PackageSet_zero
             example_image_options [] example_customizations = Inr osc
      \<and> KernelName osc = [] \<and> KernelOptionsAppend osc = [])
   \<and> (\<exists>osc. fedora_osCustomizations example_externals example_archive PackageSet_zero []
             example_customizations = Inr osc
      \<and> KernelName osc = [] \<and> KernelOptionsAppend osc = [])"
proof -
  obtain osc where run:
    "rhel9_osCustomizations example_externals example_archive PackageSet_zero
       example_image_options [] example_customizations = Inr osc"
    by (simp add: osc_defs example_defs)
  obtain osc1 where run1:
    "fedora_osCustomizations example_externals example_archive PackageSet_zero []
       example_customizations = Inr osc1"
    by (simp add: osc_defs example_defs)
  have flags: "\<not> bootable example_archive" "\<not> rpmOstree example_archive"
    by (simp_all add: example_archive_def example_disk_def)
  from kernel_dropped_when_not_bootable [OF flags, THEN conjunct2, rule_format, OF run]
  have empty: "KernelName osc = [] \<and> KernelOptionsAppend osc = []" .
  from kernel_dropped_when_not_bootable [OF flags, THEN conjunct1, rule_format, OF run1]
  have empty1: "KernelName osc1 = [] \<and> KernelOptionsAppend osc1 = []" .
  have "kc_Name (GetKernel example_customizations) = ''kernel''"
    and "kc_Append (GetKernel example_customizations) = ''debug''"
    by (simp_all add: example_customizations_def)
  with run empty run1 empty1 show ?thesis by blast
qed

section \<open>Installer images and version gates\<close>

text \<open>
  C7, as amended. The rhel9 edge installer stages the users and groups of the
  blueprint on the installer image and enables the users module
  \<^verbatim>\<open>org.fedoraproject.Anaconda.Modules.Users\<close> if and only if it staged at least one
  user or group; when the conversions of the blueprint return no user only for no user,
  and no group only for no group, that is if and only if the customizations hold a user
  or a group. The fedora IoT installer and the image installers of both packages stage
  users and groups as well and enable the users module whenever they return an image,
  with or without a user or group.
\<close>

theorem users_module_enabling:
  "(rhel9_edgeInstallerImage ext t c options packageSets = Inr img \<longrightarrow>
      aoi_Users img = UsersFromBP ext (GetUsers c)
      \<and> aoi_Groups img = GroupsFromBP ext (GetGroups c)
      \<and> (''org.fedoraproject.Anaconda.Modules.Users'' \<in> set (aoi_AdditionalAnacondaModules img))
          = (aoi_Users img \<noteq> [] \<or> aoi_Groups img \<noteq> [])
      \<and> ((\<forall>us. (UsersFromBP ext us = []) = (us = []))
            \<and> (\<forall>gs. (GroupsFromBP ext gs = []) = (gs = [])) \<longrightarrow>
          (''org.fedoraproject.Anaconda.Modules.Users'' \<in> set (aoi_AdditionalAnacondaModules img))
            = (GetUsers c \<noteq> [] \<or> GetGroups c \<noteq> [])))
   \<and> (fedora_iotInstallerImage ext t c options packageSets = Inr img' \<longrightarrow>
      aoi_Users img' = UsersFromBP ext (GetUsers c)
      \<and> aoi_Groups img' = GroupsFromBP ext (GetGroups c)
      \<and> ''org.fedoraproject.Anaconda.Modules.Users'' \<in> set (aoi_AdditionalAnacondaModules img'))
   \<and> (fedora_imageInstallerImage ext workload t c packageSets containers = Inr tar \<longrightarrow>
      ''org.fedoraproject.Anaconda.Modules.Users'' \<in> set (ati_AdditionalAnacondaModules tar))
   \<and> (rhel9_imageInstallerImage ext workload t c options packageSets containers = Inr tar' \<longrightarrow>
      ''org.fedoraproject.Anaconda.Modules.Users'' \<in> set (ati_AdditionalAnacondaModules tar'))"
proof (intro conjI impI)
  assume run: "rhel9_edgeInstallerImage ext t c options packageSets = Inr img"
  then show staged: "aoi_Users img = UsersFromBP ext (GetUsers c)"
    "aoi_Groups img = GroupsFromBP ext (GetGroups c)"
    by (auto simp: rhel9_edgeInstallerImage_def Let_def split: sum.splits if_splits)
  from run show iff:
    "(''org.fedoraproject.Anaconda.Modules.Users'' \<in> set (aoi_AdditionalAnacondaModules img))
       = (aoi_Users img \<noteq> [] \<or> aoi_Groups img \<noteq> [])"
    by (auto simp: rhel9_edgeInstallerImage_def NewAnacondaOSTreeInstaller_def Let_def
        split: sum.splits if_splits)
  assume "(\<forall>us. (UsersFromBP ext us = []) = (us = []))
            \<and> (\<forall>gs. (GroupsFromBP ext gs = []) = (gs = []))"
  with iff staged
  show "(''org.fedoraproject.Anaconda.Modules.Users'' \<in> set (aoi_AdditionalAnacondaModules img))
          = (GetUsers c \<noteq> [] \<or> GetGroups c \<noteq> [])"
    by simp
next
  assume run: "fedora_iotInstallerImage ext t c options packageSets = Inr img'"
  then show "aoi_Users img' = UsersFromBP ext (GetUsers c)"
    "aoi_Groups img' = GroupsFromBP ext (GetGroups c)"
    "''org.fedoraproject.Anaconda.Modules.Users'' \<in> set (aoi_AdditionalAnacondaModules img')"
    by (auto simp: fedora_iotInstallerImage_def Let_def split: sum.splits)
next
  assume "fedora_imageInstallerImage ext workload t c packageSets containers = Inr tar"
  then show "''org.fedoraproject.Anaconda.Modules.Users'' \<in> set (ati_AdditionalAnacondaModules tar)"
    by (rule fedora_imageInstallerImage_Inr(4))
next
  assume "rhel9_imageInstallerImage ext workload t c options packageSets containers = Inr tar'"
  then show "''org.fedoraproject.Anaconda.Modules.Users'' \<in> set (ati_AdditionalAnacondaModules tar')"
    by (rule rhel9_imageInstallerImage_Inr(4))
qed

text \<open>
  The rhel9 edge installer with no user and no group leaves the users module out, and
  with the user and the group of the example it enables it; the fedora IoT installer
  enables it with the user and the group of the example.
\<close>

theorem users_module_enabling_witness:
  "(\<exists>img. rhel9_edgeInstallerImage example_externals example_ostree_installer example_no_users
             example_ostree_options Map.empty = Inr img
      \<and> ''org.fedoraproject.Anaconda.Modules.Users'' \<notin> set (aoi_AdditionalAnacondaModules img))
   \<and> (\<exists>img. rhel9_edgeInstallerImage example_externals example_ostree_installer
             example_customizations example_ostree_options Map.empty = Inr img
      \<and> ''org.fedoraproject.Anaconda.Modules.Users'' \<in> set (aoi_AdditionalAnacondaModules img))
   \<and> (\<exists>img. fedora_iotInstallerImage example_externals example_ostree_installer
             example_customizations example_ostree_options Map.empty = Inr img
      \<and> aoi_Users img = [User ''alice'']
      \<and> ''org.fedoraproject.Anaconda.Modules.Users'' \<in> set (aoi_AdditionalAnacondaModules img))"
proof -
  have conv: "(\<forall>us. (UsersFromBP example_externals us = []) = (us = []))
                \<and> (\<forall>gs. (GroupsFromBP example_externals gs = []) = (gs = []))"
    by (simp add: example_externals_def)
  obtain img0 where run0:
    "rhel9_edgeInstallerImage example_externals example_ostree_installer example_no_users
       example_ostree_options Map.empty = Inr img0"
    by (simp add: rhel9_edgeInstallerImage_def rhel9_makeOSTreePayloadCommit_def
        NewAnacondaOSTreeInstaller_def example_defs)
  obtain img1 where run1:
    "rhel9_edgeInstallerImage example_externals example_ostree_installer example_customizations
       example_ostree_options Map.empty = Inr img1"
    by (simp add: rhel9_edgeInstallerImage_def rhel9_makeOSTreePayloadCommit_def
        NewAnacondaOSTreeInstaller_def example_defs)
  obtain img2 where run2:
    "fedora_iotInstallerImage example_externals example_ostree_installer example_customizations
       example_ostree_options Map.empty = Inr img2"
    by (simp add: fedora_iotInstallerImage_def fedora_makeOSTreePayloadCommit_def
        NewAnacondaOSTreeInstaller_def example_defs)
  from users_module_enabling [THEN conjunct1, rule_format, OF run0] conv
  have off: "''org.fedoraproject.Anaconda.Modules.Users'' \<notin> set (aoi_AdditionalAnacondaModules img0)"
    by (simp add: example_no_users_def)
  from users_module_enabling [THEN conjunct1, rule_format, OF run1] conv
  have on: "''org.fedoraproject.Anaconda.Modules.Users'' \<in> set (aoi_AdditionalAnacondaModules img1)"
    by (simp add: example_customizations_def)
  from users_module_enabling [THEN conjunct2, THEN conjunct1, rule_format, OF run2]
  have always: "aoi_Users img2 = [User ''alice'']"
    "''org.fedoraproject.Anaconda.Modules.Users'' \<in> set (aoi_AdditionalAnacondaModules img2)"
    by (simp_all add: example_customizations_def example_externals_def)
  show ?thesis
  proof (intro conjI)
    show "\<exists>img. rhel9_edgeInstallerImage example_externals example_ostree_installer example_no_users
                  example_ostree_options Map.empty = Inr img
            \<and> ''org.fedoraproject.Anaconda.Modules.Users'' \<notin> set (aoi_AdditionalAnacondaModules img)"
      using run0 off by (intro exI [of _ img0] conjI)
    show "\<exists>img. rhel9_edgeInstallerImage example_externals example_ostree_installer
                  example_customizations example_ostree_options Map.empty = Inr img
            \<and> ''org.fedoraproject.Anaconda.Modules.Users'' \<in> set (aoi_AdditionalAnacondaModules img)"
      using run1 on by (intro exI [of _ img1] conjI)
    show "\<exists>img. fedora_iotInstallerImage example_externals example_ostree_installer
                  example_customizations example_ostree_options Map.empty = Inr img
            \<and> aoi_Users img = [User ''alice'']
            \<and> ''org.fedoraproject.Anaconda.Modules.Users'' \<in> set (aoi_AdditionalAnacondaModules img)"
      using run2 always by (intro exI [of _ img2] conjI)
  qed
qed

text \<open>
  The claim as it stands fails on the fedora IoT installer: with no user and no group
  in the customizations it returns an image, and the users module is enabled.
\<close>

theorem fedora_iot_users_module_counterexample:
  "\<not> isl (fedora_iotInstallerImage example_externals example_ostree_installer example_no_users
            example_ostree_options Map.empty)
   \<and> GetUsers example_no_users = [] \<and> GetGroups example_no_users = []
   \<and> aoi_Users (projr (fedora_iotInstallerImage example_externals example_ostree_installer
                          example_no_users example_ostree_options Map.empty)) = []
   \<and> aoi_Groups (projr (fedora_iotInstallerImage example_externals example_ostree_installer
                           example_no_users example_ostree_options Map.empty)) = []
   \<and> ''org.fedoraproject.Anaconda.Modules.Users''
       \<in> set (aoi_AdditionalAnacondaModules
                (projr (fedora_iotInstallerImage example_externals example_ostree_installer
                          example_no_users example_ostree_options Map.empty)))"
  by (simp add: fedora_iotInstallerImage_def fedora_makeOSTreePayloadCommit_def
      NewAnacondaOSTreeInstaller_def example_defs)

text \<open>
  C6. The comparison of release versions is a strict total order on the versions that
  release strings denote, with the rolling release \<^verbatim>\<open>9-stream\<close> above every other
  one. A version-gated feature is on exactly when the release is not below the
  threshold: the fedora live installer, for every release string that denotes a
  version, returns an image whose additional kernel options are \<^verbatim>\<open>inst.webui\<close> when the
  release is not below 39 and none otherwise; the rhel9 edge commit, when it returns,
  has the two first-boot services after the services of the image configuration
  exactly when the version is not below 9.2. At threshold 39 the releases \<^verbatim>\<open>39\<close> and
  \<^verbatim>\<open>9-stream\<close> are not below it and \<^verbatim>\<open>38\<close> is.
\<close>

theorem version_gates:
  "\<not> version_less a a
   \<and> (version_less a b \<and> version_less b c \<longrightarrow> version_less a c)
   \<and> (version_less a b \<or> a = b \<or> version_less b a)
   \<and> \<not> version_less Rolling a
   \<and> (a \<noteq> Rolling \<longrightarrow> version_less a Rolling)
   \<and> parse_version ''9-stream'' = Some Rolling
   \<and> (parse_version (d_Releasever (distro t)) = Some v \<longrightarrow>
        (\<exists>img. fedora_liveInstallerImage ext workload t packageSets = Inr img
           \<and> ali_AdditionalKernelOpts img =
               (if version_less v (Release [39]) then [] else [''inst.webui''])))
   \<and> (rhel9_edgeCommitImage ext workload t cust options packageSets containers = Inr archive
        \<and> parse_version (osVersion (distro t)) = Some v' \<longrightarrow>
        EnabledServices (oa_OSCustomizations archive) =
          ic_EnabledServices (getDefaultImageConfig t)
            @ (if version_less v' (Release [9, 2]) then []
               else [''ignition-firstboot-complete.service'',
                     ''coreos-ignition-write-issues.service'']))
   \<and> VersionLessThan ''38'' ''39'' = Inr True
   \<and> VersionLessThan ''39'' ''39'' = Inr False
   \<and> VersionLessThan ''9-stream'' ''39'' = Inr False"
proof (intro conjI impI)
  show "\<not> version_less a a"
    by (rule version_less_irrefl)
  show "version_less a c" if "version_less a b \<and> version_less b c"
    using that version_less_trans by blast
  show "version_less a b \<or> a = b \<or> version_less b a"
    by (rule version_less_total)
  show "\<not> version_less Rolling a"
    by simp
  show "version_less a Rolling" if "a \<noteq> Rolling"
    using that by (cases a) simp_all
  show "parse_version ''9-stream'' = Some Rolling"
    by (simp add: parse_version_def rolling_token_def)
  show "VersionLessThan ''38'' ''39'' = Inr True"
    and "VersionLessThan ''39'' ''39'' = Inr False"
    and "VersionLessThan ''9-stream'' ''39'' = Inr False"
    by (simp_all add: version_defs)
next
  assume v: "parse_version (d_Releasever (distro t)) = Some v"
  have threshold: "parse_version ''39'' = Some (Release [39])"
    by (simp add: version_defs)
  from v threshold
  have "VersionLessThan (d_Releasever (distro t)) ''39'' = Inr (version_less v (Release [39]))"
    by (simp add: VersionLessThan_def)
  then show "\<exists>img. fedora_liveInstallerImage ext workload t packageSets = Inr img
               \<and> ali_AdditionalKernelOpts img =
                   (if version_less v (Release [39]) then [] else [''inst.webui''])"
    by (simp add: fedora_liveInstallerImage_def Let_def bind_error_def)
next
  assume "rhel9_edgeCommitImage ext workload t cust options packageSets containers = Inr archive
            \<and> parse_version (osVersion (distro t)) = Some v'"
  then have run: "rhel9_edgeCommitImage ext workload t cust options packageSets containers
                    = Inr archive"
    and v': "parse_version (osVersion (distro t)) = Some v'"
    by simp_all
  have threshold: "parse_version ''9.2'' = Some (Release [9, 2])"
    by (simp add: version_defs)
  from v' threshold
  have less: "VersionLessThan (osVersion (distro t)) ''9.2'' = Inr (version_less v' (Release [9, 2]))"
    by (simp add: VersionLessThan_def)
  have rolling: "\<not> version_less v' (Release [9, 2])" if "osVersion (distro t) = ''9-stream''"
    using that v' by (simp add: parse_version_def rolling_token_def)
  from run have
    "\<exists>osc. rhel9_osCustomizations ext t (packageSet_at packageSets (osPkgsKey ext)) options
              containers cust = Inr osc
       \<and> EnabledServices (oa_OSCustomizations archive) =
           (if \<not> version_less v' (Release [9, 2]) \<or> osVersion (distro t) = ''9-stream''
            then EnabledServices osc @ [''ignition-firstboot-complete.service'',
                                        ''coreos-ignition-write-issues.service'']
            else EnabledServices osc)"
    by (auto simp: rhel9_edgeCommitImage_def Let_def bind_error_def less
        split: prod.splits sum.splits)
  then obtain osc where
    merge: "rhel9_osCustomizations ext t (packageSet_at packageSets (osPkgsKey ext)) options
              containers cust = Inr osc" and
    services: "EnabledServices (oa_OSCustomizations archive) =
                 (if \<not> version_less v' (Release [9, 2]) \<or> osVersion (distro t) = ''9-stream''
                  then EnabledServices osc @ [''ignition-firstboot-complete.service'',
                                              ''coreos-ignition-write-issues.service'']
                  else EnabledServices osc)"
    by blast
  from services rolling rhel9_osCustomizations_services [OF merge]
  show "EnabledServices (oa_OSCustomizations archive) =
          ic_EnabledServices (getDefaultImageConfig t)
            @ (if version_less v' (Release [9, 2]) then []
               else [''ignition-firstboot-complete.service'',
                     ''coreos-ignition-write-issues.service''])"
    by auto
qed

text \<open>
  The live installer on the releases 38, 39 and 9-stream, the edge commit on the
  versions 9.1 and 9-stream, and 38 below the rolling release by way of 39.
\<close>

theorem version_gates_witness:
  "(\<exists>img. fedora_liveInstallerImage example_externals None (example_live ''38'') Map.empty = Inr img
      \<and> ali_AdditionalKernelOpts img = [])
   \<and> (\<exists>img. fedora_liveInstallerImage example_externals None (example_live ''39'') Map.empty = Inr img
      \<and> ali_AdditionalKernelOpts img = [''inst.webui''])
   \<and> (\<exists>img. fedora_liveInstallerImage example_externals None (example_live ''9-stream'') Map.empty
             = Inr img
      \<and> ali_AdditionalKernelOpts img = [''inst.webui''])
   \<and> (\<exists>archive. rhel9_edgeCommitImage example_externals None (example_edge ''9.1'')
                 example_customizations example_image_options Map.empty [] = Inr archive
      \<and> EnabledServices (oa_OSCustomizations archive) = [])
   \<and> (\<exists>archive. rhel9_edgeCommitImage example_externals None (example_edge ''9-stream'')
                 example_customizations example_image_options Map.empty [] = Inr archive
      \<and> EnabledServices (oa_OSCustomizations archive) =
            [''ignition-firstboot-complete.service'', ''coreos-ignition-write-issues.service''])
   \<and> version_less (Release [38]) Rolling"
proof -
  have gate: "\<exists>img. fedora_liveInstallerImage example_externals None (example_live release) Map.empty
                  = Inr img
                \<and> ali_AdditionalKernelOpts img =
                    (if version_less v (Release [39]) then [] else [''inst.webui''])"
    if "parse_version release = Some v" for release v
    using version_gates [where a = Rolling and b = Rolling and c = Rolling
        and t = "example_live release" and v = v and ext = example_externals
        and workload = None and packageSets = Map.empty] that
    by (simp add: example_live_def)
  have "parse_version ''38'' = Some (Release [38])"
    and "parse_version ''39'' = Some (Release [39])"
    and "parse_version ''9-stream'' = Some Rolling"
    by (simp_all add: version_defs)
  from this [THEN gate] have live:
    "\<exists>img. fedora_liveInstallerImage example_externals None (example_live ''38'') Map.empty = Inr img
       \<and> ali_AdditionalKernelOpts img = []"
    "\<exists>img. fedora_liveInstallerImage example_externals None (example_live ''39'') Map.empty = Inr img
       \<and> ali_AdditionalKernelOpts img = [''inst.webui'']"
    "\<exists>img. fedora_liveInstallerImage example_externals None (example_live ''9-stream'') Map.empty
         = Inr img
       \<and> ali_AdditionalKernelOpts img = [''inst.webui'']"
    by simp_all
  obtain old where run_old:
    "rhel9_edgeCommitImage example_externals None (example_edge ''9.1'') example_customizations
       example_image_options Map.empty [] = Inr old"
    by (simp add: rhel9_edgeCommitImage_def rhel9_makeOSTreeParentCommit_def NewOSTreeArchive_def
        version_defs osc_defs example_defs)
  obtain stream where run_stream:
    "rhel9_edgeCommitImage example_externals None (example_edge ''9-stream'') example_customizations
       example_image_options Map.empty [] = Inr stream"
    by (simp add: rhel9_edgeCommitImage_def rhel9_makeOSTreeParentCommit_def NewOSTreeArchive_def
        version_defs osc_defs example_defs)
  have v_old: "parse_version (osVersion (distro (example_edge ''9.1''))) = Some (Release [9, 1])"
    and v_stream: "parse_version (osVersion (distro (example_edge ''9-stream''))) = Some Rolling"
    by (simp_all add: example_edge_def example_disk_def example_distro_def version_defs)
  from version_gates [where a = Rolling and b = Rolling and c = Rolling
      and t = "example_edge ''9.1''" and v' = "Release [9, 1]"
      and ext = example_externals and workload = None and cust = example_customizations
      and options = example_image_options and packageSets = Map.empty and containers = "[]"
      and archive = old] run_old v_old
  have off: "EnabledServices (oa_OSCustomizations old) = []"
    by (simp add: example_edge_def example_disk_def example_imageConfig_def)
  from version_gates [where a = Rolling and b = Rolling and c = Rolling
      and t = "example_edge ''9-stream''" and v' = Rolling
      and ext = example_externals and workload = None and cust = example_customizations
      and options = example_image_options and packageSets = Map.empty and containers = "[]"
      and archive = stream] run_stream v_stream
  have on: "EnabledServices (oa_OSCustomizations stream) =
              [''ignition-firstboot-complete.service'', ''coreos-ignition-write-issues.service'']"
    by (simp add: example_edge_def example_disk_def example_imageConfig_def)
  from version_gates [where a = "Release [38]" and b = "Release [39]" and c = Rolling]
  have chain: "version_less (Release [38]) Rolling"
    by simp
  show ?thesis
  proof (intro conjI)
    show "\<exists>archive. rhel9_edgeCommitImage example_externals None (example_edge ''9.1'')
                      example_customizations example_image_options Map.empty [] = Inr archive
            \<and> EnabledServices (oa_OSCustomizations archive) = []"
      using run_old off by (intro exI [of _ old] conjI)
    show "\<exists>archive. rhel9_edgeCommitImage example_externals None (example_edge ''9-stream'')
                      example_customizations example_image_options Map.empty [] = Inr archive
            \<and> EnabledServices (oa_OSCustomizations archive) =
                  [''ignition-firstboot-complete.service'', ''coreos-ignition-write-issues.service'']"
      using run_stream on by (intro exI [of _ stream] conjI)
  qed (rule live chain)+
qed

section \<open>The OSTree resolver\<close>

lemma Sum256_length: "length (Sum256 msg) = 32"
  by (simp add: Sum256_def Let_def be_bytes32_def split: prod.splits)

lemma hex_bytes_length: "length (hex_bytes bs) = 2 * length bs"
  by (induction bs) (simp_all add: hex_bytes_def)

lemma hex_bytes_chars: "set (hex_bytes bs) \<subseteq> set hex_alphabet"
proof -
  have "hex_digit n \<in> set hex_alphabet" for n
    unfolding hex_digit_def hex_alphabet_def by (rule nth_mem) simp
  then show ?thesis
    by (auto simp: hex_bytes_def)
qed

text \<open>
  Known answers. The digests of two strings, as \<^verbatim>\<open>sha256sum\<close> prints them: a URL
  followed by a ref that fill one block of 64 bytes with their padding, and a longer
  pair that needs two blocks.
\<close>

lemma Sum256_one_block:
  "hex_bytes (Sum256 (bytes_of ''https://example.org/repotest/edge''))
     = ''719ba2e9039a97e9762e14ad8bbcdd3138ea5507d54e66f346a60edf67e65ece''"
  by code_simp

lemma Sum256_two_blocks:
  "hex_bytes
     (Sum256 (bytes_of ''https://ostree.example.org/repositories/fedorafedora/38/x86_64/iot''))
     = ''9060302ad7f5ef22166da5bb14ea05e6da594e9b184ba6ee6410d62dc8bea466''"
  by code_simp

text \<open>
  C8. The commit spec that \<^verbatim>\<open>resolveCommit\<close> returns has, as its checksum, the 64
  lowercase hexadecimal digits of the SHA-256 of the URL followed by the ref of the
  source, so two sources with the same URL and ref get the same checksum; its ref and
  URL are the source's; and its secrets are \<^verbatim>\<open>org.osbuild.rhsm.consumer\<close> when the
  RHSM flag of the source is set and empty when it is not. The digest is the real one:
  every source whose URL followed by its ref reads one of the two strings above has the
  checksum that \<^verbatim>\<open>sha256sum\<close> prints for that string.
\<close>

theorem resolveCommit_checksum:
  "cs_Checksum (resolveCommit s) = hex_bytes (Sum256 (bytes_of (srcURL s @ srcRef s)))
   \<and> length (cs_Checksum (resolveCommit s)) = 64
   \<and> set (cs_Checksum (resolveCommit s)) \<subseteq> set hex_alphabet
   \<and> cs_Ref (resolveCommit s) = srcRef s
   \<and> cs_URL (resolveCommit s) = srcURL s
   \<and> cs_Secrets (resolveCommit s) = (if srcRHSM s then ''org.osbuild.rhsm.consumer'' else [])
   \<and> (srcURL s = srcURL s' \<and> srcRef s = srcRef s' \<longrightarrow>
        cs_Checksum (resolveCommit s) = cs_Checksum (resolveCommit s'))
   \<and> (srcURL s @ srcRef s = ''https://example.org/repotest/edge'' \<longrightarrow>
        cs_Checksum (resolveCommit s)
          = ''719ba2e9039a97e9762e14ad8bbcdd3138ea5507d54e66f346a60edf67e65ece'')
   \<and> (srcURL s @ srcRef s
          = ''https://ostree.example.org/repositories/fedorafedora/38/x86_64/iot'' \<longrightarrow>
        cs_Checksum (resolveCommit s)
          = ''9060302ad7f5ef22166da5bb14ea05e6da594e9b184ba6ee6410d62dc8bea466'')"
proof -
  have checksum:
    "cs_Checksum (resolveCommit s) = hex_bytes (Sum256 (bytes_of (srcURL s @ srcRef s)))" for s
    by (simp add: resolveCommit_def Let_def)
  have fields: "cs_Ref (resolveCommit s) = srcRef s" "cs_URL (resolveCommit s) = srcURL s"
    "cs_Secrets (resolveCommit s) = (if srcRHSM s then ''org.osbuild.rhsm.consumer'' else [])"
    by (simp_all add: resolveCommit_def Let_def)
  have digits: "length (cs_Checksum (resolveCommit s)) = 64"
    "set (cs_Checksum (resolveCommit s)) \<subseteq> set hex_alphabet"
    by (simp_all only: checksum hex_bytes_length Sum256_length hex_bytes_chars)
  have same: "cs_Checksum (resolveCommit s) = cs_Checksum (resolveCommit s')"
    if "srcURL s = srcURL s' \<and> srcRef s = srcRef s'"
    using that by (simp only: checksum)
  have one: "cs_Checksum (resolveCommit s)
               = ''719ba2e9039a97e9762e14ad8bbcdd3138ea5507d54e66f346a60edf67e65ece''"
    if "srcURL s @ srcRef s = ''https://example.org/repotest/edge''"
    by (simp only: checksum that Sum256_one_block)
  have two: "cs_Checksum (resolveCommit s)
               = ''9060302ad7f5ef22166da5bb14ea05e6da594e9b184ba6ee6410d62dc8bea466''"
    if "srcURL s @ srcRef s
          = ''https://ostree.example.org/repositories/fedorafedora/38/x86_64/iot''"
    by (simp only: checksum that Sum256_two_blocks)
  from checksum [of s] fields digits same one two show ?thesis
    by blast
qed

text \<open>
  The source with URL \<^verbatim>\<open>https://example.org/repo\<close> and ref \<^verbatim>\<open>test/edge\<close> gets the
  digest of \<^verbatim>\<open>https://example.org/repotest/edge\<close>, with and without RHSM; a source
  whose URL and ref take 66 bytes gets the digest of its two blocks; and the secrets
  follow the RHSM flag.
\<close>

theorem resolveCommit_checksum_witness:
  "cs_Checksum (resolveCommit \<lparr>srcURL = ''https://example.org/repo'', srcRef = ''test/edge'',
                                srcRHSM = True\<rparr>)
     = cs_Checksum (resolveCommit \<lparr>srcURL = ''https://example.org/repo'', srcRef = ''test/edge'',
                                    srcRHSM = False\<rparr>)
   \<and> cs_Checksum (resolveCommit \<lparr>srcURL = ''https://example.org/repo'', srcRef = ''test/edge'',
                                  srcRHSM = True\<rparr>)
     = ''719ba2e9039a97e9762e14ad8bbcdd3138ea5507d54e66f346a60edf67e65ece''
   \<and> cs_Checksum (resolveCommit \<lparr>srcURL = ''https://example.org/repo'', srcRef = ''test/edge'',
                                  srcRHSM = False\<rparr>)
     = ''719ba2e9039a97e9762e14ad8bbcdd3138ea5507d54e66f346a60edf67e65ece''
   \<and> cs_Checksum (resolveCommit \<lparr>srcURL = ''https://ostree.example.org/repositories/fedora'',
                                  srcRef = ''fedora/38/x86_64/iot'', srcRHSM = False\<rparr>)
     = ''9060302ad7f5ef22166da5bb14ea05e6da594e9b184ba6ee6410d62dc8bea466''
   \<and> cs_Secrets (resolveCommit \<lparr>srcURL = ''https://example.org/repo'', srcRef = ''test/edge'',
                                  srcRHSM = True\<rparr>) = ''org.osbuild.rhsm.consumer''
   \<and> cs_Secrets (resolveCommit \<lparr>srcURL = ''https://example.org/repo'', srcRef = ''test/edge'',
                                  srcRHSM = False\<rparr>) = []"
proof -
  let ?edge = "\<lparr>srcURL = ''https://example.org/repo'', srcRef = ''test/edge'', srcRHSM = True\<rparr>"
  let ?plain = "\<lparr>srcURL = ''https://example.org/repo'', srcRef = ''test/edge'', srcRHSM = False\<rparr>"
  let ?iot = "\<lparr>srcURL = ''https://ostree.example.org/repositories/fedora'',
                srcRef = ''fedora/38/x86_64/iot'', srcRHSM = False\<rparr>"
  note edge = resolveCommit_checksum [of ?edge ?plain]
    and plain = resolveCommit_checksum [of ?plain ?plain]
    and iot = resolveCommit_checksum [of ?iot ?iot]
  from edge [THEN conjunct2, THEN conjunct2, THEN conjunct2, THEN conjunct2, THEN conjunct2, THEN conjunct2, THEN conjunct2, THEN conjunct1]
  have 1: "cs_Checksum (resolveCommit ?edge)
             = ''719ba2e9039a97e9762e14ad8bbcdd3138ea5507d54e66f346a60edf67e65ece''"
    by simp
  from plain [THEN conjunct2, THEN conjunct2, THEN conjunct2, THEN conjunct2, THEN conjunct2, THEN conjunct2, THEN conjunct2, THEN conjunct1]
  have 2: "cs_Checksum (resolveCommit ?plain)
             = ''719ba2e9039a97e9762e14ad8bbcdd3138ea5507d54e66f346a60edf67e65ece''"
    by simp
  from iot [THEN conjunct2, THEN conjunct2, THEN conjunct2, THEN conjunct2, THEN conjunct2, THEN conjunct2, THEN conjunct2, THEN conjunct2]
  have 3: "cs_Checksum (resolveCommit ?iot)
             = ''9060302ad7f5ef22166da5bb14ea05e6da594e9b184ba6ee6410d62dc8bea466''"
    by simp
  from edge [THEN conjunct2, THEN conjunct2, THEN conjunct2, THEN conjunct2, THEN conjunct2, THEN conjunct1]
  have 4: "cs_Secrets (resolveCommit ?edge) = ''org.osbuild.rhsm.consumer''"
    by simp
  from plain [THEN conjunct2, THEN conjunct2, THEN conjunct2, THEN conjunct2, THEN conjunct2, THEN conjunct1]
  have 5: "cs_Secrets (resolveCommit ?plain) = []"
    by simp
  from edge [THEN conjunct2, THEN conjunct2, THEN conjunct2, THEN conjunct2, THEN conjunct2, THEN conjunct2, THEN conjunct1]
  have 6: "cs_Checksum (resolveCommit ?edge) = cs_Checksum (resolveCommit ?plain)"
    by simp
  from 6 1 2 3 4 5 show ?thesis
    by (intro conjI)
qed

section \<open>Facts about the encoder\<close>




























lemma occurs_in_right: "occurs_in xs b \<Longrightarrow> occurs_in xs (a @ b)"
  unfolding occurs_in_def by (metis append.assoc)

lemma occurs_in_Cons: "occurs_in xs b \<Longrightarrow> occurs_in xs (c # b)"
  using occurs_in_right [of xs b "[c]"] by simp













section \<open>Writing the manifest\<close>



end
